theory Spec2Isabelle
  imports Main
begin

text \<open>
  A model of the tool gateway of \<^verbatim>\<open>amazing_marvin_server.py\<close>: the validation of the
  inputs, the requests to the remote service, the normalization of errors, the two
  renderings and the truncation guard. The hosted variant \<^verbatim>\<open>amazing_marvin_mcp/server.py\<close>
  has the same tools; it reads the token from the session and words the messages for the
  statuses 401 and 403 differently.
\<close>

section \<open>Texts\<close>

text \<open>
  A Python \<open>str\<close> is modelled as a \<open>string\<close>: one \<open>char\<close> per character of the text,
  so that \<open>length\<close>, \<open>take\<close> and \<open>rfind\<close> count what \<open>len\<close>, slicing and
  \<open>str.rfind\<close> count in the source. The texts of the model are those over the
  characters U+0000 to U+00FF, the range of \<open>char\<close>.
\<close>

definition newline :: char where
  "newline = CHR 0x0A"

text \<open>\<open>s.rfind(c)\<close>: the highest index holding \<open>c\<close>, or \<open>-1\<close>.\<close>

fun rfind :: "char \<Rightarrow> string \<Rightarrow> int" where
  "rfind c [] = - 1"
| "rfind c (x # xs) =
     (let r = rfind c xs in
      if 0 \<le> r then r + 1 else if x = c then 0 else - 1)"

definition digit_char :: "nat \<Rightarrow> char" where
  "digit_char d = ''0123456789'' ! d"

text \<open>\<open>str(n)\<close> for a natural number: its decimal digits.\<close>

fun str_nat :: "nat \<Rightarrow> string" where
  "str_nat n =
     (if n < 10 then [digit_char n] else str_nat (n div 10) @ [digit_char (n mod 10)])"

declare str_nat.simps [simp del]

text \<open>
  The format specification \<open>{n:,}\<close>: the decimal digits with a comma before every
  group of three, counted from the right. \<open>group3\<close> works on the reversed digits.
\<close>

fun group3 :: "string \<Rightarrow> string" where
  "group3 (a # b # c # d # xs) = a # b # c # CHR '','' # group3 (d # xs)"
| "group3 xs = xs"

definition format_thousands :: "nat \<Rightarrow> string" where
  "format_thousands n = rev (group3 (rev (str_nat n)))"

section \<open>The truncation guard\<close>

definition CHARACTER_LIMIT :: nat where
  "CHARACTER_LIMIT = 25000"

text \<open>The notice appended by \<open>_truncate_response\<close>; \<open>n\<close> is \<open>len(content)\<close>.\<close>

definition truncation_notice :: "nat \<Rightarrow> string" where
  "truncation_notice n =
     [newline, newline] @ ''---'' @ [newline]
     @ ''**Response Truncated**: Showing partial results due to size limit ''
     @ ''('' @ format_thousands n @ '' characters). To see more:'' @ [newline]
     @ ''- Use pagination with `limit` and `offset` parameters'' @ [newline]
     @ ''- Add filters to narrow down results'' @ [newline]
     @ ''- Request specific items by ID'' @ [newline]"

text \<open>\<open>_truncate_response(content, items_count)\<close>.\<close>

definition truncate_response :: "string \<Rightarrow> int \<Rightarrow> string" where
  "truncate_response content items_count =
     (if length content \<le> CHARACTER_LIMIT then content
      else
        let truncated = take CHARACTER_LIMIT content;
            last_newline = rfind newline truncated;
            truncated = (if last_newline > 0 then take (nat last_newline) truncated
                         else truncated)
        in truncated @ truncation_notice (length content))"

text \<open>
  The place where the content is cut, as the specification words it: at the limit, or
  at the last line boundary before the limit when there is one past index 0.
\<close>

definition line_cut :: "string \<Rightarrow> nat \<Rightarrow> bool" where
  "line_cut content k \<longleftrightarrow>
     (k = CHARACTER_LIMIT \<and>
        (\<forall>i. 0 < i \<and> i < CHARACTER_LIMIT \<longrightarrow> content ! i \<noteq> newline))
     \<or> (0 < k \<and> k < CHARACTER_LIMIT \<and> content ! k = newline \<and>
        (\<forall>i. k < i \<and> i < CHARACTER_LIMIT \<longrightarrow> content ! i \<noteq> newline))"

definition contains :: "string \<Rightarrow> string \<Rightarrow> bool" where
  "contains s sub \<longleftrightarrow> (\<exists>a b. s = a @ sub @ b)"

section \<open>Facts about the text helpers\<close>

lemma rfind_bounds: "- 1 \<le> rfind c xs \<and> rfind c xs < int (length xs)"
  by (induction xs) (auto simp: Let_def)

lemma rfind_hit: "0 \<le> rfind c xs \<Longrightarrow> xs ! nat (rfind c xs) = c"
proof (induction xs)
  case Nil
  then show ?case by simp
next
  case (Cons x xs)
  show ?case
  proof (cases "0 \<le> rfind c xs")
    case True
    then have "nat (rfind c xs + 1) = Suc (nat (rfind c xs))" by simp
    with True Cons.IH show ?thesis by (simp add: Let_def)
  next
    case False
    with Cons.prems show ?thesis by (simp add: Let_def split: if_splits)
  qed
qed

lemma rfind_last:
  "rfind c xs < int j \<Longrightarrow> j < length xs \<Longrightarrow> xs ! j \<noteq> c"
proof (induction xs arbitrary: j)
  case Nil
  then show ?case by simp
next
  case (Cons x xs)
  show ?case
  proof (cases j)
    case 0
    with Cons.prems show ?thesis by (simp add: Let_def split: if_splits)
  next
    case (Suc m)
    have b: "- 1 \<le> rfind c xs" using rfind_bounds [of c xs] by simp
    from Cons.prems Suc have "rfind c xs < int m"
      using b by (simp add: Let_def split: if_splits)
    moreover from Cons.prems Suc have "m < length xs" by simp
    ultimately have "xs ! m \<noteq> c" by (rule Cons.IH)
    with Suc show ?thesis by simp
  qed
qed

lemma digit_char_not_comma: "d < 10 \<Longrightarrow> digit_char d \<noteq> CHR '',''"
proof -
  assume "d < 10"
  then have "d \<in> {0, 1, 2, 3, 4, 5, 6, 7, 8, 9}" by auto
  then show ?thesis by (auto simp: digit_char_def)
qed

lemma str_nat_digit: "n < 10 \<Longrightarrow> str_nat n = [digit_char n]"
  by (simp add: str_nat.simps [of n])

lemma str_nat_step:
  "10 \<le> n \<Longrightarrow> str_nat n = str_nat (n div 10) @ [digit_char (n mod 10)]"
  by (simp add: str_nat.simps [of n])

lemma str_nat_no_comma: "CHR '','' \<notin> set (str_nat n)"
proof (induction n rule: str_nat.induct)
  case (1 n)
  show ?case
  proof (cases "n < 10")
    case True
    then show ?thesis
      using digit_char_not_comma [of n] by (simp add: str_nat.simps [of n])
  next
    case False
    have "n mod 10 < 10" by simp
    then have "digit_char (n mod 10) \<noteq> CHR '',''" by (rule digit_char_not_comma)
    with False 1 show ?thesis by (simp add: str_nat.simps [of n])
  qed
qed

lemma group3_filter:
  "CHR '','' \<notin> set xs \<Longrightarrow> filter (\<lambda>c. c \<noteq> CHR '','') (group3 xs) = xs"
  by (induction xs rule: group3.induct) auto

lemma format_thousands_digits:
  "filter (\<lambda>c. c \<noteq> CHR '','') (format_thousands n) = str_nat n"
proof -
  have "CHR '','' \<notin> set (rev (str_nat n))" by (simp add: str_nat_no_comma)
  then have "filter (\<lambda>c. c \<noteq> CHR '','') (group3 (rev (str_nat n))) = rev (str_nat n)"
    by (rule group3_filter)
  then show ?thesis by (simp add: format_thousands_def rev_filter [symmetric])
qed

lemma truncate_cut:
  assumes long: "CHARACTER_LIMIT < length content"
  shows "\<exists>k. line_cut content k \<and> k \<le> CHARACTER_LIMIT \<and>
           truncate_response content items_count
             = take k content @ truncation_notice (length content)"
proof -
  define t where "t = take CHARACTER_LIMIT content"
  define r where "r = rfind newline t"
  have lt: "length t = CHARACTER_LIMIT" using long by (simp add: t_def)
  have nth_t: "\<And>i. i < CHARACTER_LIMIT \<Longrightarrow> t ! i = content ! i"
    by (simp add: t_def)
  have res: "truncate_response content items_count
               = (if r > 0 then take (nat r) t else t) @ truncation_notice (length content)"
    using long by (simp add: truncate_response_def Let_def t_def r_def)
  show ?thesis
  proof (cases "r > 0")
    case True
    define k where "k = nat r"
    have rk: "r = int k" and kpos: "0 < k" using True by (simp_all add: k_def)
    have klt: "k < CHARACTER_LIMIT"
      using rfind_bounds [of newline t] lt by (simp add: r_def [symmetric] rk)
    have hit: "content ! k = newline"
      using rfind_hit [of newline t] True nth_t [OF klt]
      by (simp add: r_def [symmetric] k_def)
    have after: "\<forall>i. k < i \<and> i < CHARACTER_LIMIT \<longrightarrow> content ! i \<noteq> newline"
    proof (intro allI impI)
      fix i assume i: "k < i \<and> i < CHARACTER_LIMIT"
      then have "rfind newline t < int i" by (simp add: r_def [symmetric] rk)
      moreover have "i < length t" using i lt by simp
      ultimately have "t ! i \<noteq> newline" by (rule rfind_last)
      then show "content ! i \<noteq> newline" using i nth_t by simp
    qed
    have cut: "line_cut content k"
      using kpos klt hit after by (simp add: line_cut_def)
    have "take (nat r) t = take k content"
      using klt by (simp add: t_def k_def [symmetric] min_def)
    with res True have "truncate_response content items_count
        = take k content @ truncation_notice (length content)" by simp
    with cut klt show ?thesis by (intro exI [of _ k]) simp
  next
    case False
    have none: "\<forall>i. 0 < i \<and> i < CHARACTER_LIMIT \<longrightarrow> content ! i \<noteq> newline"
    proof (intro allI impI)
      fix i assume i: "0 < i \<and> i < CHARACTER_LIMIT"
      then have "rfind newline t < int i" using False by (simp add: r_def [symmetric])
      moreover have "i < length t" using i lt by simp
      ultimately have "t ! i \<noteq> newline" by (rule rfind_last)
      then show "content ! i \<noteq> newline" using i nth_t by simp
    qed
    then have cut: "line_cut content CHARACTER_LIMIT" by (simp add: line_cut_def)
    from res False have "truncate_response content items_count
        = take CHARACTER_LIMIT content @ truncation_notice (length content)"
      by (simp add: t_def)
    with cut show ?thesis by (intro exI [of _ CHARACTER_LIMIT]) simp
  qed
qed

lemma notice_marker: "contains (truncation_notice n) ''Response Truncated''"
  unfolding contains_def truncation_notice_def
  by (rule exI [of _ "[newline, newline] @ ''---'' @ [newline] @ ''**''"],
      rule exI [of _ "''**: Showing partial results due to size limit ''
         @ ''('' @ format_thousands n @ '' characters). To see more:'' @ [newline]
         @ ''- Use pagination with `limit` and `offset` parameters'' @ [newline]
         @ ''- Add filters to narrow down results'' @ [newline]
         @ ''- Request specific items by ID'' @ [newline]"]) simp

lemma notice_count:
  "contains (truncation_notice n) (''('' @ format_thousands n @ '' characters)'')"
  unfolding contains_def truncation_notice_def
  by (rule exI [of _ "[newline, newline] @ ''---'' @ [newline]
         @ ''**Response Truncated**: Showing partial results due to size limit ''"],
      rule exI [of _ "''. To see more:'' @ [newline]
         @ ''- Use pagination with `limit` and `offset` parameters'' @ [newline]
         @ ''- Add filters to narrow down results'' @ [newline]
         @ ''- Request specific items by ID'' @ [newline]"]) simp

lemma contains_append_left: "contains s sub \<Longrightarrow> contains (p @ s) sub"
proof -
  assume "contains s sub"
  then obtain a b where "s = a @ sub @ b" by (auto simp: contains_def)
  then have "p @ s = (p @ a) @ sub @ b" by simp
  then show ?thesis unfolding contains_def by blast
qed

section \<open>The truncation guard: claims\<close>

text \<open>
  C9. The output of the truncation guard depends on its content argument only: the
  same content with any two item counts gives the same output.
\<close>

theorem truncate_response_ignores_items_count:
  "truncate_response content n1 = truncate_response content n2"
  by (simp add: truncate_response_def)

text \<open>
  C2. A text of at most 25000 characters is returned unchanged. A longer one is
  returned as a content portion followed by the notice: the content portion is the
  prefix \<open>take k content\<close> whose end \<open>k\<close> is the limit 25000, moved back to the last
  line boundary below the limit when there is one past index 0 (\<open>line_cut\<close>); the
  result is no longer than 25000 plus the length of the notice, it contains
  \<open>Response Truncated\<close>, the notice begins with a blank line (two newlines) and
  states the original length, whose digits are those of \<open>len(content)\<close>.
\<close>

theorem truncate_response_bound:
  "(length content \<le> 25000 \<longrightarrow> truncate_response content n = content) \<and>
   (25000 < length content \<longrightarrow>
      (\<exists>k. line_cut content k \<and>
           truncate_response content n
             = take k content @ truncation_notice (length content)) \<and>
      length (truncate_response content n)
        \<le> 25000 + length (truncation_notice (length content)) \<and>
      contains (truncate_response content n) ''Response Truncated'' \<and>
      take 2 (truncation_notice (length content)) = [newline, newline] \<and>
      contains (truncation_notice (length content))
        (''('' @ format_thousands (length content) @ '' characters)'') \<and>
      filter (\<lambda>c. c \<noteq> CHR '','') (format_thousands (length content))
        = str_nat (length content))"
proof (intro conjI impI)
  assume "length content \<le> 25000"
  then show "truncate_response content n = content"
    by (simp add: truncate_response_def CHARACTER_LIMIT_def)
next
  assume "25000 < length content"
  then have long: "CHARACTER_LIMIT < length content" by (simp add: CHARACTER_LIMIT_def)
  from truncate_cut [OF long, of n] obtain k where
    k: "line_cut content k" "k \<le> CHARACTER_LIMIT"
       "truncate_response content n = take k content @ truncation_notice (length content)"
    by blast
  from k show "\<exists>k. line_cut content k \<and>
      truncate_response content n = take k content @ truncation_notice (length content)"
    by blast
  from k show "length (truncate_response content n)
      \<le> 25000 + length (truncation_notice (length content))"
    by (simp add: CHARACTER_LIMIT_def)
  from k show "contains (truncate_response content n) ''Response Truncated''"
    by (simp add: contains_append_left notice_marker)
next
  show "take 2 (truncation_notice (length content)) = [newline, newline]"
    by (simp add: truncation_notice_def)
next
  show "contains (truncation_notice (length content))
      (''('' @ format_thousands (length content) @ '' characters)'')"
    by (rule notice_count)
next
  show "filter (\<lambda>c. c \<noteq> CHR '','') (format_thousands (length content))
      = str_nat (length content)"
    by (rule format_thousands_digits)
qed

theorem truncate_response_bound_witness:
  "truncate_response ''one line'' 1 = ''one line'' \<and>
   contains (truncate_response (replicate 25001 (CHR ''a'')) 1) ''Response Truncated'' \<and>
   length (truncate_response (replicate 25001 (CHR ''a'')) 1)
     \<le> 25000 + length (truncation_notice 25001)"
proof -
  have short: "length ''one line'' \<le> 25000" by simp
  have long: "25000 < length (replicate 25001 (CHR ''a''))" by simp
  from truncate_response_bound [of "''one line''" 1] short
  have a: "truncate_response ''one line'' 1 = ''one line''" by blast
  from truncate_response_bound [of "replicate 25001 (CHR ''a'')" 1] long
  have b: "contains (truncate_response (replicate 25001 (CHR ''a'')) 1) ''Response Truncated''"
    and c: "length (truncate_response (replicate 25001 (CHR ''a'')) 1)
       \<le> 25000 + length (truncation_notice (length (replicate 25001 (CHR ''a''))))"
    by blast+
  from c have "length (truncate_response (replicate 25001 (CHR ''a'')) 1)
       \<le> 25000 + length (truncation_notice 25001)" by simp
  with a b show ?thesis by blast
qed

section \<open>The API client and the error normalizer\<close>

text \<open>
  The exceptions a tool body can meet, as \<open>_handle_api_error\<close> tells them apart:
  \<open>httpx.HTTPStatusError\<close> with the status code and the body of its response,
  \<open>httpx.TimeoutException\<close>, \<open>httpx.ConnectError\<close>, and any other exception with
  \<open>type(e).__name__\<close> and \<open>str(e)\<close>.
\<close>

datatype exn =
    HTTPStatusError int string
  | TimeoutException
  | ConnectError
  | OtherException string string

text \<open>\<open>str(i)\<close> for an integer.\<close>

definition str_int :: "int \<Rightarrow> string" where
  "str_int i = (if i < 0 then CHR ''-'' # str_nat (nat (- i)) else str_nat (nat i))"

text \<open>\<open>_handle_api_error(e)\<close>.\<close>

fun handle_api_error :: "exn \<Rightarrow> string" where
  "handle_api_error (HTTPStatusError status body) =
     (if status = 401 then
        ''Error: Invalid API token. Please check your AMAZING_MARVIN_API_TOKEN ''
        @ ''environment variable is set correctly. Get your token at ''
        @ ''https://app.amazingmarvin.com/pre?api=''
      else if status = 403 then
        ''Error: Permission denied. This operation requires full access token. ''
        @ ''Set AMAZING_MARVIN_FULL_TOKEN environment variable if needed.''
      else if status = 404 then
        ''Error: Resource not found. Please check that the ID is correct and ''
        @ ''the item still exists in Amazing Marvin.''
      else if status = 429 then
        ''Error: Rate limit exceeded. Please wait a moment before making more ''
        @ ''requests to the Amazing Marvin API.''
      else if status \<ge> 500 then
        ''Error: Amazing Marvin server error. The service may be temporarily ''
        @ ''unavailable. Please try again in a few moments.''
      else ''Error: API request failed with status '' @ str_int status
        @ ''. Please try again.'')"
| "handle_api_error TimeoutException =
     ''Error: Request timed out. The Amazing Marvin API is taking too long to ''
     @ ''respond. Please try again.''"
| "handle_api_error ConnectError =
     ''Error: Cannot connect to Amazing Marvin API. Please check your internet ''
     @ ''connection and try again.''"
| "handle_api_error (OtherException name msg) =
     ''Error: Unexpected error occurred - '' @ name @ '': '' @ msg"

text \<open>
  JSON values, as \<open>json=data\<close> sends them: an object is an association list, in the
  insertion order of the Python \<open>dict\<close>.
\<close>

datatype json =
    JNull
  | JBool bool
  | JInt int
  | JStr string
  | JList "json list"
  | JObj "(string \<times> json) list"

text \<open>One HTTP request, as \<open>_make_api_request\<close> hands it to the HTTP client.\<close>

record request =
  url :: string
  http_method :: string
  headers :: "(string \<times> string) list"
  json_body :: "json option"
  query :: "(string \<times> string) list option"

text \<open>
  A naive \<open>datetime\<close> is the number of milliseconds on the wall clock it shows,
  counted from 1970-01-01 00:00; a \<open>timedelta\<close> is a number of milliseconds.
\<close>

type_synonym datetime = int

text \<open>
  What the program reads from its surroundings: the two tokens of the process
  environment, the date \<open>datetime.now().strftime("%Y-%m-%d")\<close>, and the library
  functions of \<open>datetime\<close> whose results depend on the platform and its time zone:
  \<open>fromtimestamp\<close> takes the epoch milliseconds \<open>ms\<close> of the call
  \<open>datetime.fromtimestamp(ms / 1000)\<close> and gives the local wall clock or the exception
  raised, \<open>strftime_ymd\<close> is \<open>dt.strftime("%Y-%m-%d")\<close>, and \<open>strptime_ymd\<close> is
  \<open>datetime.strptime(s, "%Y-%m-%d")\<close>.
\<close>

record env =
  API_TOKEN :: string
  FULL_TOKEN :: string
  today :: string
  fromtimestamp :: "int \<Rightarrow> exn + datetime"
  strftime_ymd :: "datetime \<Rightarrow> string"
  strptime_ymd :: "string \<Rightarrow> exn + datetime"

definition API_BASE_URL :: string where
  "API_BASE_URL = ''https://serv.amazingmarvin.com/api''"

definition get_headers :: "env \<Rightarrow> bool \<Rightarrow> (string \<times> string) list" where
  "get_headers e full_access =
     (if full_access then [(''X-Full-Access-Token'', FULL_TOKEN e)]
      else [(''X-API-Token'', API_TOKEN e)])"

text \<open>
  \<open>_make_api_request\<close>. The remote service is the function \<open>remote\<close>: for a request
  it either raises (a transport failure, or \<open>raise_for_status\<close> on its response) or
  gives the decoded body. The result is paired with the requests that were sent.
\<close>

definition make_api_request ::
  "env \<Rightarrow> (request \<Rightarrow> exn + 'r) \<Rightarrow> string \<Rightarrow> string \<Rightarrow> json option
     \<Rightarrow> (string \<times> string) list option \<Rightarrow> bool \<Rightarrow> (exn + 'r) \<times> request list" where
  "make_api_request e remote endpoint method data params full_access =
     (let u = API_BASE_URL @ endpoint;
          hs = get_headers e full_access
      in if method = ''GET'' then
           (let rq = \<lparr>url = u, http_method = ''GET'', headers = hs,
                        json_body = None, query = params\<rparr>
            in (remote rq, [rq]))
         else if method = ''POST'' then
           (let rq = \<lparr>url = u, http_method = ''POST'',
                        headers = hs @ [(''Content-Type'', ''application/json'')],
                        json_body = data, query = None\<rparr>
            in (remote rq, [rq]))
         else (Inl (OtherException ''ValueError'' (''Unsupported HTTP method: '' @ method)), []))"

subsection \<open>A sample environment: the UTC clock\<close>

text \<open>
  A concrete environment for evaluating the tools: the proleptic Gregorian calendar
  in the time zone UTC, with the range of \<open>datetime\<close> (years 1 to 9999).
\<close>

definition days_from_civil :: "int \<Rightarrow> int \<Rightarrow> int \<Rightarrow> int" where
  "days_from_civil y m d =
     (let y' = (if m \<le> 2 then y - 1 else y);
          era = y' div 400;
          yoe = y' - era * 400;
          doy = (153 * (if m > 2 then m - 3 else m + 9) + 2) div 5 + d - 1;
          doe = yoe * 365 + yoe div 4 - yoe div 100 + doy
      in era * 146097 + doe - 719468)"

definition civil_from_days :: "int \<Rightarrow> int \<times> int \<times> int" where
  "civil_from_days z =
     (let z' = z + 719468;
          era = z' div 146097;
          doe = z' - era * 146097;
          yoe = (doe - doe div 1460 + doe div 36524 - doe div 146096) div 365;
          doy = doe - (365 * yoe + yoe div 4 - yoe div 100);
          mp = (5 * doy + 2) div 153;
          d = doy - (153 * mp + 2) div 5 + 1;
          m = (if mp < 10 then mp + 3 else mp - 9);
          y = yoe + era * 400
      in (if m \<le> 2 then y + 1 else y, m, d))"

definition days_in_month :: "int \<Rightarrow> int \<Rightarrow> int" where
  "days_in_month y m =
     (if m = 2 then (if y mod 4 = 0 \<and> (y mod 100 \<noteq> 0 \<or> y mod 400 = 0) then 29 else 28)
      else if m \<in> {4, 6, 9, 11} then 30 else 31)"

definition pad_left :: "nat \<Rightarrow> string \<Rightarrow> string" where
  "pad_left w s = replicate (w - length s) (CHR ''0'') @ s"

definition digit_val :: "char \<Rightarrow> int" where
  "digit_val c = int (of_char c) - 48"

definition int_of_digits :: "string \<Rightarrow> int" where
  "int_of_digits s = foldl (\<lambda>a c. 10 * a + digit_val c) 0 s"

definition utc_fromtimestamp :: "int \<Rightarrow> exn + datetime" where
  "utc_fromtimestamp ms =
     (if days_from_civil 1 1 1 * 86400000 \<le> ms \<and> ms < days_from_civil 10000 1 1 * 86400000
      then Inr ms
      else Inl (OtherException ''ValueError'' ''year is out of range''))"

definition utc_strftime_ymd :: "datetime \<Rightarrow> string" where
  "utc_strftime_ymd dt =
     (case civil_from_days (dt div 86400000) of
        (y, m, d) \<Rightarrow> pad_left 4 (str_int y) @ ''-'' @ pad_left 2 (str_int m)
                      @ ''-'' @ pad_left 2 (str_int d))"

definition utc_strptime_ymd :: "string \<Rightarrow> exn + datetime" where
  "utc_strptime_ymd s =
     (let y = int_of_digits (take 4 s);
          m = int_of_digits (take 2 (drop 5 s));
          d = int_of_digits (take 2 (drop 8 s))
      in if 1 \<le> y \<and> 1 \<le> m \<and> m \<le> 12 \<and> 1 \<le> d \<and> d \<le> days_in_month y m
         then Inr (days_from_civil y m d * 86400000)
         else Inl (OtherException ''ValueError''
                (''time data '' @ s @ '' does not match format %Y-%m-%d'')))"

definition utc_env :: env where
  "utc_env = \<lparr>API_TOKEN = ''token'', FULL_TOKEN = ''full'', today = ''2024-03-20'',
     fromtimestamp = utc_fromtimestamp, strftime_ymd = utc_strftime_ymd,
     strptime_ymd = utc_strptime_ymd\<rparr>"

text \<open>
  The glyphs of the literals lie outside the range of \<open>char\<close>; they are written as
  their UTF-8 bytes (check mark, white square, folder, stopwatch). Nothing below depends
  on their length.
\<close>

definition glyph_done :: string where
  "glyph_done = [CHR 0xE2, CHR 0x9C, CHR 0x85]"

definition glyph_open :: string where
  "glyph_open = [CHR 0xE2, CHR 0xAC, CHR 0x9C]"

definition glyph_folder :: string where
  "glyph_folder = [CHR 0xF0, CHR 0x9F, CHR 0x93, CHR 0x81]"

definition glyph_timer :: string where
  "glyph_timer = [CHR 0xE2, CHR 0x8F, CHR 0xB1, CHR 0xEF, CHR 0xB8, CHR 0x8F]"

text \<open>\<open>MarkDoneInput\<close>, validated.\<close>

record MarkDoneInput =
  md_item_id :: string

text \<open>
  \<open>marvin_mark_done\<close>: the text returned, and the requests sent. The body of the
  response is not read.
\<close>

definition marvin_mark_done ::
  "env \<Rightarrow> (request \<Rightarrow> exn + 'r) \<Rightarrow> MarkDoneInput \<Rightarrow> string \<times> request list" where
  "marvin_mark_done e remote params =
     (case make_api_request e remote ''/markDone'' ''POST''
             (Some (JObj [(''itemId'', JStr (md_item_id params))])) None False of
        (Inl ex, sent) \<Rightarrow> (handle_api_error ex, sent)
      | (Inr _, sent) \<Rightarrow>
          (glyph_done @ '' Task marked as complete!'' @ [newline, newline]
             @ ''**Task ID**: '' @ md_item_id params, sent))"

text \<open>
  C1. For every exception the normalizer returns a non-empty text that begins with
  \<open>Error: \<close> (it is a total function, so it never raises). The status code selects the
  message: 401 the credential guidance, 403 the full access token, 404 not found,
  429 the rate limit, 500 and above the unavailable service, any other status the
  generic message citing the status. When the remote answers a mark-done request
  with status 404, the tool returns exactly the not-found message, whatever the
  response body and the item id are.
\<close>

theorem handle_api_error_total:
  "handle_api_error ex \<noteq> [] \<and> take 7 (handle_api_error ex) = ''Error: '' \<and>
   contains (handle_api_error (HTTPStatusError 401 body)) ''Invalid API token'' \<and>
   contains (handle_api_error (HTTPStatusError 401 body))
     ''https://app.amazingmarvin.com/pre?api='' \<and>
   contains (handle_api_error (HTTPStatusError 403 body)) ''requires full access token'' \<and>
   handle_api_error (HTTPStatusError 404 body) =
     ''Error: Resource not found. Please check that the ID is correct and the item still exists in Amazing Marvin.'' \<and>
   contains (handle_api_error (HTTPStatusError 429 body)) ''Rate limit exceeded'' \<and>
   (500 \<le> status \<longrightarrow>
      handle_api_error (HTTPStatusError status body) =
        ''Error: Amazing Marvin server error. The service may be temporarily unavailable. Please try again in a few moments.'') \<and>
   (status < 500 \<and> status \<notin> {401, 403, 404, 429} \<longrightarrow>
      handle_api_error (HTTPStatusError status body) =
        ''Error: API request failed with status '' @ str_int status @ ''. Please try again.'') \<and>
   ((\<forall>rq. remote rq = Inl (HTTPStatusError 404 (resp_body rq))) \<longrightarrow>
      fst (marvin_mark_done e remote params) =
        ''Error: Resource not found. Please check that the ID is correct and the item still exists in Amazing Marvin.'')"
proof (intro conjI impI)
  show "handle_api_error ex \<noteq> []"
    by (cases ex) auto
  show "take 7 (handle_api_error ex) = ''Error: ''"
    by (cases ex) auto
  show "contains (handle_api_error (HTTPStatusError 401 body)) ''Invalid API token''"
    unfolding contains_def
    by (rule exI [of _ "''Error: ''"],
        rule exI [of _ "''. Please check your AMAZING_MARVIN_API_TOKEN environment variable is set correctly. Get your token at https://app.amazingmarvin.com/pre?api=''"])
      simp
  show "contains (handle_api_error (HTTPStatusError 401 body))
     ''https://app.amazingmarvin.com/pre?api=''"
    unfolding contains_def
    by (rule exI [of _ "''Error: Invalid API token. Please check your AMAZING_MARVIN_API_TOKEN environment variable is set correctly. Get your token at ''"],
        rule exI [of _ "[]"])
      simp
  show "contains (handle_api_error (HTTPStatusError 403 body)) ''requires full access token''"
    unfolding contains_def
    by (rule exI [of _ "''Error: Permission denied. This operation ''"],
        rule exI [of _ "''. Set AMAZING_MARVIN_FULL_TOKEN environment variable if needed.''"])
      simp
  show "handle_api_error (HTTPStatusError 404 body) =
     ''Error: Resource not found. Please check that the ID is correct and the item still exists in Amazing Marvin.''"
    by simp
  show "contains (handle_api_error (HTTPStatusError 429 body)) ''Rate limit exceeded''"
    unfolding contains_def
    by (rule exI [of _ "''Error: ''"],
        rule exI [of _ "''. Please wait a moment before making more requests to the Amazing Marvin API.''"])
      simp
next
  assume "500 \<le> status"
  then show "handle_api_error (HTTPStatusError status body) =
        ''Error: Amazing Marvin server error. The service may be temporarily unavailable. Please try again in a few moments.''"
    by simp
next
  assume "status < 500 \<and> status \<notin> {401, 403, 404, 429}"
  then show "handle_api_error (HTTPStatusError status body) =
        ''Error: API request failed with status '' @ str_int status @ ''. Please try again.''"
    by simp
next
  assume "\<forall>rq. remote rq = Inl (HTTPStatusError 404 (resp_body rq))"
  then show "fst (marvin_mark_done e remote params) =
        ''Error: Resource not found. Please check that the ID is correct and the item still exists in Amazing Marvin.''"
    by (simp add: marvin_mark_done_def make_api_request_def Let_def)
qed

theorem handle_api_error_total_witness:
  "handle_api_error (HTTPStatusError 503 ''down'') =
     ''Error: Amazing Marvin server error. The service may be temporarily unavailable. Please try again in a few moments.'' \<and>
   handle_api_error (HTTPStatusError 418 ''teapot'') =
     ''Error: API request failed with status 418. Please try again.'' \<and>
   fst (marvin_mark_done utc_env
          (\<lambda>rq. (Inl (HTTPStatusError 404 ''no such item'') :: exn + unit))
          \<lparr>md_item_id = ''task_missing''\<rparr>) =
     ''Error: Resource not found. Please check that the ID is correct and the item still exists in Amazing Marvin.''"
proof -
  have s: "str_int 418 = ''418''"
    by (simp add: str_int_def str_nat_step str_nat_digit digit_char_def)
  have a: "(500::int) \<le> 503" by simp
  have b: "(418::int) < 500 \<and> (418::int) \<notin> {401, 403, 404, 429}" by simp
  have c: "\<forall>rq. (\<lambda>rq. (Inl (HTTPStatusError 404 ''no such item'') :: exn + unit)) rq
      = Inl (HTTPStatusError 404 ((\<lambda>rq. ''no such item'') rq))" by simp
  from handle_api_error_total [of TimeoutException "''down''" 503] a
  have 1: "handle_api_error (HTTPStatusError 503 ''down'') =
     ''Error: Amazing Marvin server error. The service may be temporarily unavailable. Please try again in a few moments.''"
    by blast
  from handle_api_error_total [of TimeoutException "''teapot''" 418] b
  have "handle_api_error (HTTPStatusError 418 ''teapot'') =
     ''Error: API request failed with status '' @ str_int 418 @ ''. Please try again.''"
    by blast
  then have 2: "handle_api_error (HTTPStatusError 418 ''teapot'') =
     ''Error: API request failed with status 418. Please try again.''"
    by (simp add: s)
  from handle_api_error_total [of TimeoutException "''x''" 0
      "\<lambda>rq. (Inl (HTTPStatusError 404 ''no such item'') :: exn + unit)"
      "\<lambda>rq. ''no such item''"
      utc_env
      "\<lparr>md_item_id = ''task_missing''\<rparr>"] c
  have 3: "fst (marvin_mark_done utc_env
          (\<lambda>rq. (Inl (HTTPStatusError 404 ''no such item'') :: exn + unit))
          \<lparr>md_item_id = ''task_missing''\<rparr>) =
     ''Error: Resource not found. Please check that the ID is correct and the item still exists in Amazing Marvin.''"
    by blast
  from 1 2 3 show ?thesis by blast
qed

section \<open>Remote records and the formatters\<close>

text \<open>
  A field of a record returned by the remote service: the key is absent, or it is
  present with the value \<open>null\<close>, or present with a value. \<open>d.get(k)\<close> is \<open>getf\<close>
  (\<open>None\<close> in the first two cases), and \<open>d.get(k, default)\<close> gives the default only
  when the key is absent.
\<close>

datatype 'a field = Absent | Null | Val 'a

fun getf :: "'a field \<Rightarrow> 'a option" where
  "getf (Val v) = Some v"
| "getf _ = None"

text \<open>
  The record of the remote service, with the fields the tools read and the types the
  specification gives them: \<open>_id\<close>, \<open>title\<close>, \<open>parentId\<close>, \<open>note\<close> and \<open>type\<close> are texts,
  \<open>done\<close> is a boolean, \<open>dueDate\<close>, \<open>day\<close> and \<open>timeEstimate\<close> are numbers of
  milliseconds.
\<close>

record task =
  f_id :: "string field"
  f_title :: "string field"
  f_done :: "bool field"
  f_dueDate :: "int field"
  f_day :: "int field"
  f_timeEstimate :: "int field"
  f_parentId :: "string field"
  f_note :: "string field"
  f_type :: "string field"

text \<open>Truth values of Python: \<open>None\<close>, \<open>0\<close>, \<open>False\<close> and the empty text are false.\<close>

definition truthy_int :: "int option \<Rightarrow> bool" where
  "truthy_int v = (case v of None \<Rightarrow> False | Some i \<Rightarrow> i \<noteq> 0)"

definition truthy_str :: "string option \<Rightarrow> bool" where
  "truthy_str v = (case v of None \<Rightarrow> False | Some s \<Rightarrow> s \<noteq> [])"

definition truthy_bool :: "bool option \<Rightarrow> bool" where
  "truthy_bool v = (case v of None \<Rightarrow> False | Some b \<Rightarrow> b)"

text \<open>An f-string field \<open>{d.get(k, default)}\<close> for a text field: \<open>None\<close> prints as \<open>None\<close>.\<close>

fun fmt_get :: "string field \<Rightarrow> string \<Rightarrow> string" where
  "fmt_get Absent dflt = dflt"
| "fmt_get Null dflt = ''None''"
| "fmt_get (Val s) dflt = s"

text \<open>The exceptions that \<open>except (ValueError, OSError)\<close> catches.\<close>

fun value_or_os_error :: "exn \<Rightarrow> bool" where
  "value_or_os_error (OtherException name msg) = (name = ''ValueError'' \<or> name = ''OSError'')"
| "value_or_os_error _ = False"

text \<open>\<open>_format_timestamp(timestamp, default)\<close>; another exception than the two leaves it.\<close>

definition format_timestamp :: "env \<Rightarrow> int option \<Rightarrow> string \<Rightarrow> exn + string" where
  "format_timestamp e timestamp dflt =
     (if \<not> truthy_int timestamp then Inr dflt
      else case fromtimestamp e (the timestamp) of
             Inr dt \<Rightarrow> Inr (strftime_ymd e dt)
           | Inl ex \<Rightarrow> if value_or_os_error ex then Inr dflt else Inl ex)"

text \<open>\<open>_format_time_estimate(ms)\<close>; \<open>//\<close> and \<open>%\<close> round down, as \<open>div\<close> and \<open>mod\<close> do.\<close>

definition format_time_estimate :: "int option \<Rightarrow> string" where
  "format_time_estimate ms =
     (if \<not> truthy_int ms then ''Not set''
      else
        let hours = the ms div 3600000;
            minutes = (the ms mod 3600000) div 60000
        in if hours \<noteq> 0 \<and> minutes \<noteq> 0 then str_int hours @ ''h '' @ str_int minutes @ ''m''
           else if hours \<noteq> 0 then str_int hours @ ''h''
           else if minutes \<noteq> 0 then str_int minutes @ ''m''
           else ''< 1m'')"

text \<open>\<open>"\n".join(lines)\<close>.\<close>

fun join_lines :: "string list \<Rightarrow> string" where
  "join_lines [] = []"
| "join_lines [l] = l"
| "join_lines (l # ls) = l @ [newline] @ join_lines ls"

section \<open>Creating a task\<close>

text \<open>\<open>AddTaskInput\<close>, validated: an optional field is \<open>None\<close> when it was not given (\<open>task_note\<close> is the field \<open>note\<close>).\<close>

record AddTaskInput =
  title :: string
  task_note :: "string option"
  day :: "string option"
  due_date :: "string option"
  parent_id :: "string option"
  label_ids :: "string list option"
  time_estimate :: "int option"
  is_starred :: "bool option"

text \<open>\<open>if v is not None: task_data[key] = v\<close>, as the entries it adds.\<close>

definition opt_entry :: "string \<Rightarrow> ('a \<Rightarrow> json) \<Rightarrow> 'a option \<Rightarrow> (string \<times> json) list" where
  "opt_entry key conv v = (case v of None \<Rightarrow> [] | Some x \<Rightarrow> [(key, conv x)])"

text \<open>The dictionary \<open>task_data\<close> that \<open>marvin_add_task\<close> builds.\<close>

definition add_task_data :: "AddTaskInput \<Rightarrow> (string \<times> json) list" where
  "add_task_data params =
     [(''title'', JStr (title params)), (''done'', JBool False)]
     @ opt_entry ''note'' JStr (task_note params)
     @ opt_entry ''day'' JStr (day params)
     @ opt_entry ''dueDate'' JStr (due_date params)
     @ opt_entry ''parentId'' JStr (parent_id params)
     @ opt_entry ''labelIds'' (\<lambda>ids. JList (map JStr ids)) (label_ids params)
     @ opt_entry ''timeEstimate'' JInt (time_estimate params)
     @ opt_entry ''isStarred'' JBool (is_starred params)"

text \<open>The lines of the success message, or the exception raised while formatting.\<close>

definition add_task_lines :: "env \<Rightarrow> task \<Rightarrow> exn + string list" where
  "add_task_lines e result =
     (let lines = [glyph_done @ '' Task created successfully!'', [],
                   ''**ID**: '' @ fmt_get (f_id result) ''N/A'',
                   ''**Title**: '' @ fmt_get (f_title result) ''N/A'']
      in case (if truthy_int (getf (f_day result))
               then (case format_timestamp e (getf (f_day result)) ''Not set'' of
                       Inl ex \<Rightarrow> Inl ex | Inr s \<Rightarrow> Inr (lines @ [''**Scheduled**: '' @ s]))
               else Inr lines) of
           Inl ex \<Rightarrow> Inl ex
         | Inr lines \<Rightarrow>
            (case (if truthy_int (getf (f_dueDate result))
                   then (case format_timestamp e (getf (f_dueDate result)) ''Not set'' of
                           Inl ex \<Rightarrow> Inl ex | Inr s \<Rightarrow> Inr (lines @ [''**Due**: '' @ s]))
                   else Inr lines) of
               Inl ex \<Rightarrow> Inl ex
             | Inr lines \<Rightarrow>
                Inr (if truthy_int (getf (f_timeEstimate result))
                     then lines @ [''**Time Estimate**: ''
                            @ format_time_estimate (getf (f_timeEstimate result))]
                     else lines)))"

text \<open>\<open>marvin_add_task\<close>: the text returned, and the requests sent.\<close>

definition marvin_add_task ::
  "env \<Rightarrow> (request \<Rightarrow> exn + task) \<Rightarrow> AddTaskInput \<Rightarrow> string \<times> request list" where
  "marvin_add_task e remote params =
     (case make_api_request e remote ''/addTask'' ''POST''
             (Some (JObj (add_task_data params))) None False of
        (Inl ex, sent) \<Rightarrow> (handle_api_error ex, sent)
      | (Inr result, sent) \<Rightarrow>
          (case add_task_lines e result of
             Inl ex \<Rightarrow> (handle_api_error ex, sent)
           | Inr lines \<Rightarrow> (join_lines lines, sent)))"

lemma map_of_opt_entry:
  "map_of (opt_entry key conv v) k = (if k = key then map_option conv v else None)"
  by (cases v) (simp_all add: opt_entry_def)

lemma keys_opt_entry: "map fst (opt_entry key conv v) = (if v = None then [] else [key])"
  by (cases v) (simp_all add: opt_entry_def)

lemma values_opt_entry:
  assumes "\<And>x. conv x \<noteq> JNull"
  shows "JNull \<notin> snd ` set (opt_entry key conv v)"
proof (cases v)
  case None
  then show ?thesis by (simp add: opt_entry_def)
next
  case (Some a)
  have "conv a \<noteq> JNull" by (rule assms)
  then have "JNull \<noteq> conv a" by (rule not_sym)
  with Some show ?thesis by (simp add: opt_entry_def)
qed

lemma add_task_sent:
  "snd (marvin_add_task e remote params) =
     [\<lparr>url = API_BASE_URL @ ''/addTask'', http_method = ''POST'',
       headers = [(''X-API-Token'', API_TOKEN e), (''Content-Type'', ''application/json'')],
       json_body = Some (JObj (add_task_data params)), query = None\<rparr>]"
  by (simp add: marvin_add_task_def make_api_request_def get_headers_def Let_def
      split: sum.splits)

text \<open>
  C10. One request is sent, a POST to the create-task endpoint, and its body is the
  object \<open>add_task_data params\<close>: under \<open>title\<close> the title, under \<open>done\<close> the value
  \<open>false\<close>, and under the key of each optional field the value supplied, the key being
  absent when the field was not supplied (\<open>None\<close>); no value of the body is \<open>null\<close>,
  and no key occurs twice.
\<close>

theorem add_task_body:
  "map url (snd (marvin_add_task e remote params)) = [API_BASE_URL @ ''/addTask''] \<and>
   map http_method (snd (marvin_add_task e remote params)) = [''POST''] \<and>
   map json_body (snd (marvin_add_task e remote params)) = [Some (JObj (add_task_data params))] \<and>
   map_of (add_task_data params) ''title'' = Some (JStr (title params)) \<and>
   map_of (add_task_data params) ''done'' = Some (JBool False) \<and>
   map_of (add_task_data params) ''note'' = map_option JStr (task_note params) \<and>
   map_of (add_task_data params) ''day'' = map_option JStr (day params) \<and>
   map_of (add_task_data params) ''dueDate'' = map_option JStr (due_date params) \<and>
   map_of (add_task_data params) ''parentId'' = map_option JStr (parent_id params) \<and>
   map_of (add_task_data params) ''labelIds''
     = map_option (\<lambda>ids. JList (map JStr ids)) (label_ids params) \<and>
   map_of (add_task_data params) ''timeEstimate'' = map_option JInt (time_estimate params) \<and>
   map_of (add_task_data params) ''isStarred'' = map_option JBool (is_starred params) \<and>
   JNull \<notin> snd ` set (add_task_data params) \<and>
   distinct (map fst (add_task_data params))"
proof (intro conjI)
  show "map url (snd (marvin_add_task e remote params)) = [API_BASE_URL @ ''/addTask'']"
    by (simp add: add_task_sent)
  show "map http_method (snd (marvin_add_task e remote params)) = [''POST'']"
    by (simp add: add_task_sent)
  show "map json_body (snd (marvin_add_task e remote params))
      = [Some (JObj (add_task_data params))]"
    by (simp add: add_task_sent)
  show "map_of (add_task_data params) ''title'' = Some (JStr (title params))"
    by (simp add: add_task_data_def)
  show "map_of (add_task_data params) ''done'' = Some (JBool False)"
    by (simp add: add_task_data_def)
  show "map_of (add_task_data params) ''note'' = map_option JStr (task_note params)"
    by (simp add: add_task_data_def map_of_opt_entry map_add_def split: option.splits)
  show "map_of (add_task_data params) ''day'' = map_option JStr (day params)"
    by (simp add: add_task_data_def map_of_opt_entry map_add_def split: option.splits)
  show "map_of (add_task_data params) ''dueDate'' = map_option JStr (due_date params)"
    by (simp add: add_task_data_def map_of_opt_entry map_add_def split: option.splits)
  show "map_of (add_task_data params) ''parentId'' = map_option JStr (parent_id params)"
    by (simp add: add_task_data_def map_of_opt_entry map_add_def split: option.splits)
  show "map_of (add_task_data params) ''labelIds''
      = map_option (\<lambda>ids. JList (map JStr ids)) (label_ids params)"
    by (simp add: add_task_data_def map_of_opt_entry map_add_def split: option.splits)
  show "map_of (add_task_data params) ''timeEstimate'' = map_option JInt (time_estimate params)"
    by (simp add: add_task_data_def map_of_opt_entry map_add_def split: option.splits)
  show "map_of (add_task_data params) ''isStarred'' = map_option JBool (is_starred params)"
    by (simp add: add_task_data_def map_of_opt_entry map_add_def split: option.splits)
  show "JNull \<notin> snd ` set (add_task_data params)"
    by (simp add: add_task_data_def image_Un values_opt_entry)
  show "distinct (map fst (add_task_data params))"
    by (simp add: add_task_data_def keys_opt_entry)
qed

section \<open>Rendering\<close>

subsection \<open>\<open>json.dumps(response, indent=2)\<close>\<close>

definition hex_char :: "nat \<Rightarrow> char" where
  "hex_char d = ''0123456789abcdef'' ! d"

text \<open>
  One character inside a JSON string, with \<open>ensure_ascii\<close>: the quote, the backslash
  and the control characters have short escapes, every other character outside the
  printable ASCII range is written \<open>\uXXXX\<close>.
\<close>

definition escape_char :: "char \<Rightarrow> string" where
  "escape_char c =
     (if c = CHR 0x22 then [CHR 0x5C, CHR 0x22]
      else if c = CHR 0x5C then [CHR 0x5C, CHR 0x5C]
      else if c = CHR 0x0A then [CHR 0x5C, CHR ''n'']
      else if c = CHR 0x0D then [CHR 0x5C, CHR ''r'']
      else if c = CHR 0x09 then [CHR 0x5C, CHR ''t'']
      else if c = CHR 0x08 then [CHR 0x5C, CHR ''b'']
      else if c = CHR 0x0C then [CHR 0x5C, CHR ''f'']
      else if (of_char c :: nat) < 32 \<or> 126 < (of_char c :: nat) then
        [CHR 0x5C, CHR ''u'', CHR ''0'', CHR ''0'',
         hex_char (of_char c div 16), hex_char (of_char c mod 16)]
      else [c])"

definition json_string :: "string \<Rightarrow> string" where
  "json_string s = [CHR 0x22] @ concat (map escape_char s) @ [CHR 0x22]"

definition indent :: "nat \<Rightarrow> string" where
  "indent level = replicate (2 * level) (CHR '' '')"

text \<open>The items of a list or an object, one per line at the given level.\<close>

fun join_items :: "nat \<Rightarrow> string list \<Rightarrow> string" where
  "join_items level [] = []"
| "join_items level [x] = indent level @ x"
| "join_items level (x # xs) = indent level @ x @ '','' @ [newline] @ join_items level xs"

fun dumps :: "nat \<Rightarrow> json \<Rightarrow> string" where
  "dumps level JNull = ''null''"
| "dumps level (JBool b) = (if b then ''true'' else ''false'')"
| "dumps level (JInt i) = str_int i"
| "dumps level (JStr s) = json_string s"
| "dumps level (JList xs) =
     (if xs = [] then ''[]''
      else ''['' @ [newline] @ join_items (Suc level) (map (dumps (Suc level)) xs)
           @ [newline] @ indent level @ '']'')"
| "dumps level (JObj kvs) =
     (if kvs = [] then ''{}''
      else ''{'' @ [newline]
           @ join_items (Suc level)
               (map (\<lambda>kv. json_string (fst kv) @ '': '' @ dumps (Suc level) (snd kv)) kvs)
           @ [newline] @ indent level @ ''}'')"

definition json_dumps :: "json \<Rightarrow> string" where
  "json_dumps v = dumps 0 v"

subsection \<open>Helpers of the renderers\<close>

text \<open>A loop over the records that stops at the first exception.\<close>

fun map_exn :: "('a \<Rightarrow> exn + 'b) \<Rightarrow> 'a list \<Rightarrow> exn + 'b list" where
  "map_exn f [] = Inr []"
| "map_exn f (x # xs) =
     (case f x of
        Inl ex \<Rightarrow> Inl ex
      | Inr y \<Rightarrow> (case map_exn f xs of Inl ex \<Rightarrow> Inl ex | Inr ys \<Rightarrow> Inr (y # ys)))"

text \<open>\<open>d.get(k)\<close> of a text field as a JSON value.\<close>

definition json_str_opt :: "string option \<Rightarrow> json" where
  "json_str_opt v = (case v of None \<Rightarrow> JNull | Some s \<Rightarrow> JStr s)"

text \<open>\<open>d.get("done", False)\<close> as a JSON value.\<close>

fun json_done :: "bool field \<Rightarrow> json" where
  "json_done Absent = JBool False"
| "json_done Null = JNull"
| "json_done (Val b) = JBool b"

text \<open>\<open>_format_timestamp(d.get(k)) if d.get(k) else None\<close> as a JSON value.\<close>

definition json_date :: "env \<Rightarrow> int option \<Rightarrow> exn + json" where
  "json_date e v =
     (if truthy_int v then
        (case format_timestamp e v ''Not set'' of Inl ex \<Rightarrow> Inl ex | Inr s \<Rightarrow> Inr (JStr s))
      else Inr JNull)"

text \<open>\<open>_format_time_estimate(d.get(k)) if d.get(k) else None\<close> as a JSON value.\<close>

definition json_estimate :: "int option \<Rightarrow> json" where
  "json_estimate v = (if truthy_int v then JStr (format_time_estimate v) else JNull)"

text \<open>The line \<open>- **Due**: ...\<close>, added when the record has a due date.\<close>

definition due_line :: "env \<Rightarrow> int option \<Rightarrow> exn + string list" where
  "due_line e v =
     (if truthy_int v then
        (case format_timestamp e v ''Not set'' of
           Inl ex \<Rightarrow> Inl ex | Inr s \<Rightarrow> Inr [''- **Due**: '' @ s])
      else Inr [])"

definition estimate_line :: "int option \<Rightarrow> string list" where
  "estimate_line v =
     (if truthy_int v then [''- **Estimate**: '' @ format_time_estimate v] else [])"

text \<open>The line \<open>- **Note**: ...\<close> with the note cut at \<open>limit\<close> characters.\<close>

definition note_line :: "nat \<Rightarrow> string option \<Rightarrow> string list" where
  "note_line limit v =
     (if truthy_str v then [''- **Note**: '' @ take limit (the v)] else [])"

definition status_glyph :: "task \<Rightarrow> string" where
  "status_glyph t = (if truthy_bool (getf (f_done t)) then glyph_done else glyph_open)"

text \<open>\<open>f"{word}{'s' if n != 1 else ''}"\<close>.\<close>

definition plural :: "nat \<Rightarrow> string" where
  "plural n = (if n \<noteq> 1 then ''s'' else [])"

datatype ResponseFormat = MARKDOWN | JSON

subsection \<open>Today's tasks\<close>

record GetTasksInput =
  date :: "string option"
  response_format :: ResponseFormat

text \<open>\<open>params.date or datetime.now().strftime("%Y-%m-%d")\<close>.\<close>

definition target_date_of :: "env \<Rightarrow> GetTasksInput \<Rightarrow> string" where
  "target_date_of e params = (if truthy_str (date params) then the (date params) else today e)"

text \<open>The lines of one record in the markdown rendering of today's tasks.\<close>

definition today_block :: "env \<Rightarrow> task \<Rightarrow> exn + string list" where
  "today_block e t =
     (case due_line e (getf (f_dueDate t)) of
        Inl ex \<Rightarrow> Inl ex
      | Inr due \<Rightarrow>
          Inr ([''## '' @ status_glyph t @ '' '' @ fmt_get (f_title t) ''Untitled'',
                ''- **ID**: '' @ fmt_get (f_id t) []]
               @ due
               @ estimate_line (getf (f_timeEstimate t))
               @ (if truthy_str (getf (f_parentId t))
                  then [''- **Project**: '' @ the (getf (f_parentId t))] else [])
               @ note_line 200 (getf (f_note t))
               @ [[]]))"

text \<open>The object of one record in the JSON rendering of today's tasks.\<close>

definition today_json :: "env \<Rightarrow> task \<Rightarrow> exn + json" where
  "today_json e t =
     (case json_date e (getf (f_dueDate t)) of
        Inl ex \<Rightarrow> Inl ex
      | Inr due \<Rightarrow>
          Inr (JObj [(''id'', json_str_opt (getf (f_id t))),
                     (''title'', json_str_opt (getf (f_title t))),
                     (''done'', json_done (f_done t)),
                     (''dueDate'', due),
                     (''timeEstimate'', json_estimate (getf (f_timeEstimate t))),
                     (''parentId'', json_str_opt (getf (f_parentId t))),
                     (''note'', json_str_opt (getf (f_note t)))]))"

definition today_markdown :: "env \<Rightarrow> string \<Rightarrow> task list \<Rightarrow> exn + string" where
  "today_markdown e target_date tasks =
     (case map_exn (today_block e) tasks of
        Inl ex \<Rightarrow> Inl ex
      | Inr blocks \<Rightarrow>
          Inr (join_lines
                 ([''# Today's Tasks ('' @ target_date @ '')'', [],
                   ''Found '' @ str_nat (length tasks) @ '' task'' @ plural (length tasks), []]
                  @ concat blocks)))"

definition today_response :: "env \<Rightarrow> string \<Rightarrow> task list \<Rightarrow> exn + json" where
  "today_response e target_date tasks =
     (case map_exn (today_json e) tasks of
        Inl ex \<Rightarrow> Inl ex
      | Inr recs \<Rightarrow>
          Inr (JObj [(''date'', JStr target_date),
                     (''total'', JInt (int (length tasks))),
                     (''tasks'', JList recs)]))"

text \<open>\<open>marvin_get_todays_tasks\<close>: the text returned, and the requests sent.\<close>

definition marvin_get_todays_tasks ::
  "env \<Rightarrow> (request \<Rightarrow> exn + task list) \<Rightarrow> GetTasksInput \<Rightarrow> string \<times> request list" where
  "marvin_get_todays_tasks e remote params =
     (let target_date = target_date_of e params
      in case make_api_request e remote ''/todayItems'' ''GET'' None
                (Some [(''date'', target_date)]) False of
           (Inl ex, sent) \<Rightarrow> (handle_api_error ex, sent)
         | (Inr tasks, sent) \<Rightarrow>
             if tasks = [] then (''No tasks scheduled for '' @ target_date @ ''.'', sent)
             else if response_format params = MARKDOWN then
               (case today_markdown e target_date tasks of
                  Inl ex \<Rightarrow> (handle_api_error ex, sent)
                | Inr result \<Rightarrow> (truncate_response result (int (length tasks)), sent))
             else
               (case today_response e target_date tasks of
                  Inl ex \<Rightarrow> (handle_api_error ex, sent)
                | Inr response \<Rightarrow>
                    (truncate_response (json_dumps response) (int (length tasks)), sent)))"

subsection \<open>Due and overdue tasks\<close>

text \<open>
  \<open>(target_dt - due_dt).days\<close> for the record's due date: the difference of the two
  wall clocks in whole days, rounded down.
\<close>

definition days_diff :: "datetime \<Rightarrow> datetime \<Rightarrow> int" where
  "days_diff target_dt due_dt = (target_dt - due_dt) div 86400000"

text \<open>The tag after the title; \<open>fromtimestamp\<close> is not guarded here.\<close>

definition overdue_tag :: "env \<Rightarrow> datetime \<Rightarrow> int option \<Rightarrow> exn + string" where
  "overdue_tag e target_dt v =
     (if truthy_int v then
        (case fromtimestamp e (the v) of
           Inl ex \<Rightarrow> Inl ex
         | Inr due_dt \<Rightarrow>
             Inr (if days_diff target_dt due_dt > 0 then '' [OVERDUE]''
                  else if days_diff target_dt due_dt = 0 then '' [DUE TODAY]''
                  else []))
      else Inr [])"

definition due_block :: "env \<Rightarrow> datetime \<Rightarrow> task \<Rightarrow> exn + string list" where
  "due_block e target_dt t =
     (case format_timestamp e (getf (f_dueDate t)) ''Not set'' of
        Inl ex \<Rightarrow> Inl ex
      | Inr due_date_str \<Rightarrow>
          (case overdue_tag e target_dt (getf (f_dueDate t)) of
             Inl ex \<Rightarrow> Inl ex
           | Inr tag \<Rightarrow>
               Inr ([''## '' @ status_glyph t @ '' '' @ fmt_get (f_title t) ''Untitled'' @ tag,
                     ''- **ID**: '' @ fmt_get (f_id t) [],
                     ''- **Due**: '' @ due_date_str]
                    @ estimate_line (getf (f_timeEstimate t))
                    @ note_line 200 (getf (f_note t))
                    @ [[]])))"

text \<open>The entry \<open>daysOverdue\<close>, added when the difference is positive.\<close>

definition days_overdue_entry ::
  "env \<Rightarrow> datetime \<Rightarrow> int option \<Rightarrow> exn + (string \<times> json) list" where
  "days_overdue_entry e target_dt v =
     (if truthy_int v then
        (case fromtimestamp e (the v) of
           Inl ex \<Rightarrow> Inl ex
         | Inr due_dt \<Rightarrow>
             Inr (if days_diff target_dt due_dt > 0
                  then [(''daysOverdue'', JInt (days_diff target_dt due_dt))] else []))
      else Inr [])"

definition due_json :: "env \<Rightarrow> datetime \<Rightarrow> task \<Rightarrow> exn + json" where
  "due_json e target_dt t =
     (case json_date e (getf (f_dueDate t)) of
        Inl ex \<Rightarrow> Inl ex
      | Inr due \<Rightarrow>
          (case days_overdue_entry e target_dt (getf (f_dueDate t)) of
             Inl ex \<Rightarrow> Inl ex
           | Inr overdue \<Rightarrow>
               Inr (JObj ([(''id'', json_str_opt (getf (f_id t))),
                           (''title'', json_str_opt (getf (f_title t))),
                           (''done'', json_done (f_done t)),
                           (''dueDate'', due),
                           (''timeEstimate'', json_estimate (getf (f_timeEstimate t)))]
                          @ overdue))))"

definition due_markdown :: "env \<Rightarrow> string \<Rightarrow> datetime \<Rightarrow> task list \<Rightarrow> exn + string" where
  "due_markdown e target_date target_dt tasks =
     (case map_exn (due_block e target_dt) tasks of
        Inl ex \<Rightarrow> Inl ex
      | Inr blocks \<Rightarrow>
          Inr (join_lines
                 ([''# Due & Overdue Tasks (as of '' @ target_date @ '')'', [],
                   ''Found '' @ str_nat (length tasks) @ '' task'' @ plural (length tasks)
                     @ '' requiring attention'', []]
                  @ concat blocks)))"

definition due_response :: "env \<Rightarrow> string \<Rightarrow> datetime \<Rightarrow> task list \<Rightarrow> exn + json" where
  "due_response e target_date target_dt tasks =
     (case map_exn (due_json e target_dt) tasks of
        Inl ex \<Rightarrow> Inl ex
      | Inr recs \<Rightarrow>
          Inr (JObj [(''asOf'', JStr target_date),
                     (''total'', JInt (int (length tasks))),
                     (''tasks'', JList recs)]))"

text \<open>\<open>marvin_get_due_tasks\<close>: the text returned, and the requests sent.\<close>

definition marvin_get_due_tasks ::
  "env \<Rightarrow> (request \<Rightarrow> exn + task list) \<Rightarrow> GetTasksInput \<Rightarrow> string \<times> request list" where
  "marvin_get_due_tasks e remote params =
     (let target_date = target_date_of e params
      in case make_api_request e remote ''/dueItems'' ''GET'' None
                (Some [(''by'', target_date)]) False of
           (Inl ex, sent) \<Rightarrow> (handle_api_error ex, sent)
         | (Inr tasks, sent) \<Rightarrow>
             if tasks = [] then
               (''No due or overdue tasks as of '' @ target_date @ ''.'', sent)
             else
               (case strptime_ymd e target_date of
                  Inl ex \<Rightarrow> (handle_api_error ex, sent)
                | Inr target_dt \<Rightarrow>
                    if response_format params = MARKDOWN then
                      (case due_markdown e target_date target_dt tasks of
                         Inl ex \<Rightarrow> (handle_api_error ex, sent)
                       | Inr result \<Rightarrow> (truncate_response result (int (length tasks)), sent))
                    else
                      (case due_response e target_date target_dt tasks of
                         Inl ex \<Rightarrow> (handle_api_error ex, sent)
                       | Inr response \<Rightarrow>
                           (truncate_response (json_dumps response) (int (length tasks)),
                            sent))))"

subsection \<open>Categories, labels and children\<close>

record SimpleFormatInput =
  sf_response_format :: ResponseFormat

record GetChildrenInput =
  gc_parent_id :: string
  gc_response_format :: ResponseFormat

definition category_block :: "task \<Rightarrow> string list" where
  "category_block cat =
     [''## '' @ fmt_get (f_title cat) ''Untitled'' @ '' ('' @ fmt_get (f_type cat) ''unknown''
        @ '')'',
      ''- **ID**: '' @ fmt_get (f_id cat) [],
      ''- **Type**: '' @ fmt_get (f_type cat) ''unknown'']
     @ (if truthy_str (getf (f_parentId cat))
        then [''- **Parent**: '' @ the (getf (f_parentId cat))] else [])
     @ note_line 150 (getf (f_note cat))
     @ [[]]"

definition category_json :: "task \<Rightarrow> json" where
  "category_json c =
     JObj [(''id'', json_str_opt (getf (f_id c))),
           (''title'', json_str_opt (getf (f_title c))),
           (''type'', json_str_opt (getf (f_type c))),
           (''parentId'', json_str_opt (getf (f_parentId c))),
           (''note'', json_str_opt (getf (f_note c)))]"

definition categories_markdown :: "task list \<Rightarrow> string" where
  "categories_markdown categories =
     join_lines
       ([''# Categories & Projects'', [],
         ''Found '' @ str_nat (length categories) @ '' categor''
           @ (if length categories \<noteq> 1 then ''ies'' else ''y'') @ '' and projects'', []]
        @ concat (map category_block categories))"

definition categories_response :: "task list \<Rightarrow> json" where
  "categories_response categories =
     JObj [(''total'', JInt (int (length categories))),
           (''categories'', JList (map category_json categories))]"

text \<open>\<open>marvin_get_categories\<close>: the text returned, and the requests sent.\<close>

definition marvin_get_categories ::
  "env \<Rightarrow> (request \<Rightarrow> exn + task list) \<Rightarrow> SimpleFormatInput \<Rightarrow> string \<times> request list" where
  "marvin_get_categories e remote params =
     (case make_api_request e remote ''/categories'' ''GET'' None None False of
        (Inl ex, sent) \<Rightarrow> (handle_api_error ex, sent)
      | (Inr categories, sent) \<Rightarrow>
          if categories = [] then (''No categories or projects found.'', sent)
          else if sf_response_format params = MARKDOWN then
            (truncate_response (categories_markdown categories) (int (length categories)), sent)
          else
            (truncate_response (json_dumps (categories_response categories))
               (int (length categories)), sent))"

definition label_block :: "task \<Rightarrow> string list" where
  "label_block label =
     [''## '' @ fmt_get (f_title label) ''Untitled'',
      ''- **ID**: '' @ fmt_get (f_id label) [],
      []]"

definition label_json :: "task \<Rightarrow> json" where
  "label_json l =
     JObj [(''id'', json_str_opt (getf (f_id l))),
           (''title'', json_str_opt (getf (f_title l)))]"

definition labels_markdown :: "task list \<Rightarrow> string" where
  "labels_markdown labels =
     join_lines
       ([''# Labels'', [],
         ''Found '' @ str_nat (length labels) @ '' label'' @ plural (length labels), []]
        @ concat (map label_block labels))"

definition labels_response :: "task list \<Rightarrow> json" where
  "labels_response labels =
     JObj [(''total'', JInt (int (length labels))),
           (''labels'', JList (map label_json labels))]"

text \<open>\<open>marvin_get_labels\<close>: the text returned, and the requests sent.\<close>

definition marvin_get_labels ::
  "env \<Rightarrow> (request \<Rightarrow> exn + task list) \<Rightarrow> SimpleFormatInput \<Rightarrow> string \<times> request list" where
  "marvin_get_labels e remote params =
     (case make_api_request e remote ''/labels'' ''GET'' None None False of
        (Inl ex, sent) \<Rightarrow> (handle_api_error ex, sent)
      | (Inr labels, sent) \<Rightarrow>
          if labels = [] then (''No labels found.'', sent)
          else if sf_response_format params = MARKDOWN then
            (truncate_response (labels_markdown labels) (int (length labels)), sent)
          else
            (truncate_response (json_dumps (labels_response labels))
               (int (length labels)), sent))"

definition child_block :: "env \<Rightarrow> task \<Rightarrow> exn + string list" where
  "child_block e item =
     (case due_line e (getf (f_dueDate item)) of
        Inl ex \<Rightarrow> Inl ex
      | Inr due \<Rightarrow>
          Inr ([''## '' @ (if f_type item = Val ''project'' then glyph_folder
                           else status_glyph item)
                  @ '' '' @ fmt_get (f_title item) ''Untitled''
                  @ '' ('' @ fmt_get (f_type item) ''task'' @ '')'',
                ''- **ID**: '' @ fmt_get (f_id item) [],
                ''- **Type**: '' @ fmt_get (f_type item) ''task'']
               @ due
               @ estimate_line (getf (f_timeEstimate item))
               @ note_line 150 (getf (f_note item))
               @ [[]]))"

definition child_json :: "env \<Rightarrow> task \<Rightarrow> exn + json" where
  "child_json e i =
     (case json_date e (getf (f_dueDate i)) of
        Inl ex \<Rightarrow> Inl ex
      | Inr due \<Rightarrow>
          Inr (JObj [(''id'', json_str_opt (getf (f_id i))),
                     (''title'', json_str_opt (getf (f_title i))),
                     (''type'', json_str_opt (getf (f_type i))),
                     (''done'', json_done (f_done i)),
                     (''dueDate'', due),
                     (''timeEstimate'', json_estimate (getf (f_timeEstimate i))),
                     (''note'', json_str_opt (getf (f_note i)))]))"

definition children_markdown :: "env \<Rightarrow> string \<Rightarrow> task list \<Rightarrow> exn + string" where
  "children_markdown e parent items =
     (case map_exn (child_block e) items of
        Inl ex \<Rightarrow> Inl ex
      | Inr blocks \<Rightarrow>
          Inr (join_lines
                 ([''# Items in: '' @ parent, [],
                   ''Found '' @ str_nat (length items) @ '' item'' @ plural (length items), []]
                  @ concat blocks)))"

definition children_response :: "env \<Rightarrow> string \<Rightarrow> task list \<Rightarrow> exn + json" where
  "children_response e parent items =
     (case map_exn (child_json e) items of
        Inl ex \<Rightarrow> Inl ex
      | Inr recs \<Rightarrow>
          Inr (JObj [(''parent_id'', JStr parent),
                     (''total'', JInt (int (length items))),
                     (''items'', JList recs)]))"

text \<open>\<open>marvin_get_children\<close>: the text returned, and the requests sent.\<close>

definition marvin_get_children ::
  "env \<Rightarrow> (request \<Rightarrow> exn + task list) \<Rightarrow> GetChildrenInput \<Rightarrow> string \<times> request list" where
  "marvin_get_children e remote params =
     (case make_api_request e remote ''/children'' ''GET'' None
             (Some [(''parentId'', gc_parent_id params)]) False of
        (Inl ex, sent) \<Rightarrow> (handle_api_error ex, sent)
      | (Inr items, sent) \<Rightarrow>
          if items = [] then
            (''No items found under parent ID: '' @ gc_parent_id params, sent)
          else if gc_response_format params = MARKDOWN then
            (case children_markdown e (gc_parent_id params) items of
               Inl ex \<Rightarrow> (handle_api_error ex, sent)
             | Inr result \<Rightarrow> (truncate_response result (int (length items)), sent))
          else
            (case children_response e (gc_parent_id params) items of
               Inl ex \<Rightarrow> (handle_api_error ex, sent)
             | Inr response \<Rightarrow>
                 (truncate_response (json_dumps response) (int (length items)), sent)))"

section \<open>Empty results\<close>

text \<open>
  C7. When the remote service answers the tool's request with an empty collection,
  the tool returns its own sentence, in the markdown mode and in the JSON mode alike
  (the response format is arbitrary below): today's tasks \<open>No tasks scheduled for
  {date}.\<close>, due tasks \<open>No due or overdue tasks as of {date}.\<close>, categories
  \<open>No categories or projects found.\<close>, labels \<open>No labels found.\<close>, children
  \<open>No items found under parent ID: {id}\<close>. The sentence is returned as it is, not
  through the renderer or the truncation guard, whatever its length.
\<close>

theorem empty_result_sentences:
  "(\<forall>rq. remote rq = Inr []) \<longrightarrow>
     fst (marvin_get_todays_tasks e remote gt)
       = ''No tasks scheduled for '' @ target_date_of e gt @ ''.'' \<and>
     fst (marvin_get_due_tasks e remote gt)
       = ''No due or overdue tasks as of '' @ target_date_of e gt @ ''.'' \<and>
     fst (marvin_get_categories e remote sf) = ''No categories or projects found.'' \<and>
     fst (marvin_get_labels e remote sf) = ''No labels found.'' \<and>
     fst (marvin_get_children e remote gc)
       = ''No items found under parent ID: '' @ gc_parent_id gc"
  by (simp add: marvin_get_todays_tasks_def marvin_get_due_tasks_def
      marvin_get_categories_def marvin_get_labels_def marvin_get_children_def
      make_api_request_def Let_def)

theorem empty_result_sentences_witness:
  "fst (marvin_get_todays_tasks utc_env (\<lambda>rq. Inr [])
          \<lparr>date = Some ''2024-03-15'', response_format = JSON\<rparr>)
     = ''No tasks scheduled for 2024-03-15.'' \<and>
   fst (marvin_get_todays_tasks utc_env (\<lambda>rq. Inr [])
          \<lparr>date = None, response_format = MARKDOWN\<rparr>)
     = ''No tasks scheduled for 2024-03-20.'' \<and>
   fst (marvin_get_labels utc_env (\<lambda>rq. Inr []) \<lparr>sf_response_format = JSON\<rparr>)
     = ''No labels found.'' \<and>
   fst (marvin_get_children utc_env (\<lambda>rq. Inr [])
          \<lparr>gc_parent_id = ''cat_abc123xyz'', gc_response_format = JSON\<rparr>)
     = ''No items found under parent ID: cat_abc123xyz''"
proof -
  have h: "\<forall>rq. (\<lambda>rq. (Inr [] :: exn + task list)) rq = Inr []" by simp
  have d1: "target_date_of utc_env \<lparr>date = Some ''2024-03-15'', response_format = JSON\<rparr>
      = ''2024-03-15''"
    by (simp add: target_date_of_def truthy_str_def)
  have d2: "target_date_of utc_env \<lparr>date = None, response_format = MARKDOWN\<rparr>
      = ''2024-03-20''"
    by (simp add: target_date_of_def truthy_str_def utc_env_def)
  from empty_result_sentences [of "\<lambda>rq. Inr []" utc_env
      "\<lparr>date = Some ''2024-03-15'', response_format = JSON\<rparr>"
      "\<lparr>sf_response_format = JSON\<rparr>"
      "\<lparr>gc_parent_id = ''cat_abc123xyz'', gc_response_format = JSON\<rparr>"] h
  have a: "fst (marvin_get_todays_tasks utc_env (\<lambda>rq. Inr [])
          \<lparr>date = Some ''2024-03-15'', response_format = JSON\<rparr>)
       = ''No tasks scheduled for '' @ ''2024-03-15'' @ ''.''"
    and b: "fst (marvin_get_labels utc_env (\<lambda>rq. Inr []) \<lparr>sf_response_format = JSON\<rparr>)
       = ''No labels found.''"
    and c: "fst (marvin_get_children utc_env (\<lambda>rq. Inr [])
          \<lparr>gc_parent_id = ''cat_abc123xyz'', gc_response_format = JSON\<rparr>)
       = ''No items found under parent ID: '' @ ''cat_abc123xyz''"
    by (simp_all add: d1)
  from empty_result_sentences [of "\<lambda>rq. Inr []" utc_env
      "\<lparr>date = None, response_format = MARKDOWN\<rparr>"
      "\<lparr>sf_response_format = JSON\<rparr>"
      "\<lparr>gc_parent_id = ''cat_abc123xyz'', gc_response_format = JSON\<rparr>"] h
  have d: "fst (marvin_get_todays_tasks utc_env (\<lambda>rq. Inr [])
          \<lparr>date = None, response_format = MARKDOWN\<rparr>)
       = ''No tasks scheduled for '' @ ''2024-03-20'' @ ''.''"
    by (simp add: d2)
  from a b c d show ?thesis by simp
qed

text \<open>
  The sentence is not cut: with an identifier of 30000 characters it is longer than the
  limit of the truncation guard.
\<close>

lemma empty_children_not_truncated:
  "length (fst (marvin_get_children e (\<lambda>rq. Inr [])
             \<lparr>gc_parent_id = replicate 30000 (CHR ''x''), gc_response_format = MARKDOWN\<rparr>))
     = 30032"
  by (simp add: marvin_get_children_def make_api_request_def Let_def)

text \<open>The durations that the specification lists for \<open>formatDuration\<close>.\<close>

lemma format_time_estimate_examples:
  "format_time_estimate (Some 0) = ''Not set''"
  "format_time_estimate None = ''Not set''"
  "format_time_estimate (Some 30000) = ''< 1m''"
  "format_time_estimate (Some 3660000) = ''1h 1m''"
  "format_time_estimate (Some 7200000) = ''2h''"
  by (simp_all add: format_time_estimate_def truthy_int_def Let_def str_int_def str_nat_digit
      digit_char_def)

section \<open>Days overdue\<close>



text \<open>
  A due date that \<open>fromtimestamp\<close> refuses: the computation of the tag, which does not
  guard the call, raises, and so do the block and the JSON record.
\<close>

lemma due_unconvertible:
  assumes "getf (f_dueDate t) = Some ms" and "ms \<noteq> 0" and "fromtimestamp e ms = Inl ex"
  shows "due_block e target_dt t = Inl ex \<and> due_json e target_dt t = Inl ex"
  using assms
  by (simp add: due_block_def due_json_def overdue_tag_def days_overdue_entry_def
      json_date_def format_timestamp_def truthy_int_def)





section \<open>The validation layer\<close>

text \<open>
  The input schemas are declared in the source with the validation library's \<open>Field\<close>
  constraints and the configuration of \<open>BaseTaskInput\<close>: \<open>str_strip_whitespace=True\<close>
  (a text is trimmed, then its constraints are checked: the lengths, then the pattern)
  and \<open>extra='forbid'\<close> (a key that is no field is an error).
\<close>

datatype verr =
    Missing string
  | ExtraForbidden string
  | StringType string
  | StringTooShort string
  | StringTooLong string
  | StringPatternMismatch string
  | IntType string
  | GreaterThanEqual string
  | LessThanEqual string
  | BoolType string
  | ListType string
  | TooLong string
  | EnumValue string

text \<open>White space, within the range of \<open>char\<close>: U+0009 to U+000D, U+0020, U+0085, U+00A0.\<close>

definition is_space :: "char \<Rightarrow> bool" where
  "is_space c \<longleftrightarrow> (of_char c :: nat) \<in> {9, 10, 11, 12, 13, 32, 133, 160}"

definition strip :: "string \<Rightarrow> string" where
  "strip s = rev (dropWhile is_space (rev (dropWhile is_space s)))"

text \<open>The class \<open>\d\<close>, within the range of \<open>char\<close>: the digits 0 to 9.\<close>

definition is_digit :: "char \<Rightarrow> bool" where
  "is_digit c \<longleftrightarrow> 48 \<le> (of_char c :: nat) \<and> (of_char c :: nat) \<le> 57"

text \<open>
  A pattern anchored at both ends (\<open>^...$\<close>) whose items each match one character:
  \<open>\d\<close> or a literal character; \<open>\d{4}\<close> is four items.
\<close>

datatype atom = Digit | Lit char

fun atom_ok :: "atom \<Rightarrow> char \<Rightarrow> bool" where
  "atom_ok Digit c = is_digit c"
| "atom_ok (Lit l) c = (c = l)"

fun matches :: "atom list \<Rightarrow> string \<Rightarrow> bool" where
  "matches [] [] = True"
| "matches (a # as) (c # cs) = (atom_ok a c \<and> matches as cs)"
| "matches _ _ = False"

text \<open>The pattern \<open>^\d{4}-\d{2}-\d{2}$\<close> of \<open>day\<close>, \<open>due_date\<close> and \<open>date\<close>.\<close>

definition date_regex :: "atom list" where
  "date_regex = [Digit, Digit, Digit, Digit, Lit (CHR ''-''), Digit, Digit, Lit (CHR ''-''),
                 Digit, Digit]"

text \<open>
  A text field \<open>Field(min_length=..., max_length=..., pattern=...)\<close> named \<open>name\<close>, given
  the value \<open>v\<close>: the validated text is the trimmed one.
\<close>

definition v_str ::
  "string \<Rightarrow> nat option \<Rightarrow> nat option \<Rightarrow> atom list option \<Rightarrow> json \<Rightarrow> verr list + string" where
  "v_str name min_length max_length pattern v =
     (case v of
        JStr raw \<Rightarrow>
          (let s = strip raw
           in if (case min_length of Some n \<Rightarrow> length s < n | None \<Rightarrow> False)
                then Inl [StringTooShort name]
              else if (case max_length of Some n \<Rightarrow> n < length s | None \<Rightarrow> False)
                then Inl [StringTooLong name]
              else if (case pattern of Some p \<Rightarrow> \<not> matches p s | None \<Rightarrow> False)
                then Inl [StringPatternMismatch name]
              else Inr s)
      | _ \<Rightarrow> Inl [StringType name])"

text \<open>The validation of a date field given a text.\<close>

definition date_field :: "string \<Rightarrow> string \<Rightarrow> verr list + string" where
  "date_field name raw = v_str name None None (Some date_regex) (JStr raw)"

text \<open>
  The shape the specification words: four digits, a dash, two digits, a dash, two
  digits, and nothing else.
\<close>

definition date_shape :: "string \<Rightarrow> bool" where
  "date_shape s \<longleftrightarrow>
     length s = 10 \<and> s ! 4 = CHR ''-'' \<and> s ! 7 = CHR ''-'' \<and>
     (\<forall>i \<in> {0, 1, 2, 3, 5, 6, 8, 9}. is_digit (s ! i))"

lemma matches_all2: "matches as s = list_all2 atom_ok as s"
  by (induction as s rule: matches.induct) simp_all

lemma matches_date_regex: "matches date_regex s = date_shape s"
proof
  assume "matches date_regex s"
  then have l: "length s = 10" and a: "\<forall>i<10. atom_ok (date_regex ! i) (s ! i)"
    by (auto simp: matches_all2 list_all2_conv_all_nth date_regex_def)
  from a have "atom_ok (date_regex ! 0) (s ! 0)" "atom_ok (date_regex ! 1) (s ! 1)"
    "atom_ok (date_regex ! 2) (s ! 2)" "atom_ok (date_regex ! 3) (s ! 3)"
    "atom_ok (date_regex ! 4) (s ! 4)" "atom_ok (date_regex ! 5) (s ! 5)"
    "atom_ok (date_regex ! 6) (s ! 6)" "atom_ok (date_regex ! 7) (s ! 7)"
    "atom_ok (date_regex ! 8) (s ! 8)" "atom_ok (date_regex ! 9) (s ! 9)"
    by simp_all
  with l show "date_shape s" by (simp add: date_shape_def date_regex_def)
next
  assume d: "date_shape s"
  then have l: "length s = 10" by (simp add: date_shape_def)
  have "atom_ok (date_regex ! i) (s ! i)" if "i < 10" for i
  proof -
    from that have "i \<in> {0, 1, 2, 3, 4, 5, 6, 7, 8, 9}" by auto
    with d show ?thesis by (auto simp: date_shape_def date_regex_def)
  qed
  with l show "matches date_regex s"
    by (simp add: matches_all2 list_all2_conv_all_nth date_regex_def)
qed

lemma strip_date_sample: "strip '' 2024-01-01'' = ''2024-01-01''"
  by (simp add: strip_def is_space_def)

lemma strip_invalid_sample: "strip ''2024-13-40'' = ''2024-13-40''"
  by (simp add: strip_def is_space_def)

text \<open>
  C8, as the claim states it, fails: a text with white space around a date is not of
  the shape, and the validation accepts it.
\<close>

theorem date_field_accepts_other_shape:
  "\<not> date_shape '' 2024-01-01'' \<and> date_field ''day'' '' 2024-01-01'' = Inr ''2024-01-01''"
proof
  show "\<not> date_shape '' 2024-01-01''" by (simp add: date_shape_def)
  have "date_shape ''2024-01-01''" by (simp add: date_shape_def is_digit_def)
  then show "date_field ''day'' '' 2024-01-01'' = Inr ''2024-01-01''"
    by (simp add: date_field_def v_str_def strip_date_sample matches_date_regex)
qed

text \<open>
  C8, amended. The validation of a date field trims the white space around the text
  and accepts it exactly when the trimmed text has the shape, the validated value
  being the trimmed text; every other text is rejected with a pattern mismatch. The
  check is of the pattern only: \<open>2024-13-40\<close>, which is no date of the calendar, is
  accepted.
\<close>

theorem date_field_pattern_only:
  "date_field name raw =
     (if date_shape (strip raw) then Inr (strip raw) else Inl [StringPatternMismatch name]) \<and>
   date_field name ''2024-13-40'' = Inr ''2024-13-40''"
proof
  show "date_field name raw =
     (if date_shape (strip raw) then Inr (strip raw) else Inl [StringPatternMismatch name])"
    by (simp add: date_field_def v_str_def matches_date_regex Let_def)
  have "date_shape ''2024-13-40''" by (simp add: date_shape_def is_digit_def)
  then show "date_field name ''2024-13-40'' = Inr ''2024-13-40''"
    by (simp add: date_field_def v_str_def strip_invalid_sample matches_date_regex)
qed

theorem date_field_pattern_only_witness:
  "date_field ''due_date'' ''2024-03-20 '' = Inr ''2024-03-20'' \<and>
   date_field ''due_date'' ''20240320'' = Inl [StringPatternMismatch ''due_date'']"
proof -
  have s1: "strip ''2024-03-20 '' = ''2024-03-20''" by (simp add: strip_def is_space_def)
  have s2: "strip ''20240320'' = ''20240320''" by (simp add: strip_def is_space_def)
  have d1: "date_shape ''2024-03-20''" by (simp add: date_shape_def is_digit_def)
  have d2: "\<not> date_shape ''20240320''" by (simp add: date_shape_def)
  from date_field_pattern_only [of "''due_date''" "''2024-03-20 ''"] s1 d1
  have a: "date_field ''due_date'' ''2024-03-20 '' = Inr ''2024-03-20''" by simp
  from date_field_pattern_only [of "''due_date''" "''20240320''"] s2 d2
  have b: "date_field ''due_date'' ''20240320'' = Inl [StringPatternMismatch ''due_date'']"
    by simp
  from a b show ?thesis by simp
qed

subsection \<open>The schemas\<close>

text \<open>
  The raw input of a tool is the object of its arguments. Outside the lax conversions of
  the validation library, an input for an integer field is an integer and an input for a
  boolean field is a boolean; what the library makes of any other value for these two
  types is left open, as the two functions of \<open>coercion\<close>.
\<close>

type_synonym raw = "(string \<times> json) list"

record coercion =
  lax_int :: "json \<Rightarrow> int option"
  lax_bool :: "json \<Rightarrow> bool option"

text \<open>The errors of two fields are collected, in the order of the fields.\<close>

definition ap :: "verr list + ('a \<Rightarrow> 'b) \<Rightarrow> verr list + 'a \<Rightarrow> verr list + 'b" where
  "ap f x =
     (case f of
        Inl e1 \<Rightarrow> (case x of Inl e2 \<Rightarrow> Inl (e1 @ e2) | Inr a \<Rightarrow> Inl e1)
      | Inr g \<Rightarrow> (case x of Inl e2 \<Rightarrow> Inl e2 | Inr a \<Rightarrow> Inr (g a)))"

text \<open>A required field (\<open>Field(...)\<close> with no default).\<close>

definition required :: "raw \<Rightarrow> string \<Rightarrow> (json \<Rightarrow> verr list + 'a) \<Rightarrow> verr list + 'a" where
  "required r name f = (case map_of r name of None \<Rightarrow> Inl [Missing name] | Some v \<Rightarrow> f v)"

text \<open>A field \<open>Optional[...] = Field(default=None, ...)\<close>.\<close>

definition optional ::
  "raw \<Rightarrow> string \<Rightarrow> (json \<Rightarrow> verr list + 'a) \<Rightarrow> verr list + 'a option" where
  "optional r name f =
     (case map_of r name of
        None \<Rightarrow> Inr None
      | Some JNull \<Rightarrow> Inr None
      | Some v \<Rightarrow> (case f v of Inl es \<Rightarrow> Inl es | Inr a \<Rightarrow> Inr (Some a)))"

text \<open>\<open>extra='forbid'\<close>: the keys that are no field, after the errors of the fields.\<close>

definition forbid_extra :: "string list \<Rightarrow> raw \<Rightarrow> verr list + 'a \<Rightarrow> verr list + 'a" where
  "forbid_extra names r res =
     (let extras = map ExtraForbidden (filter (\<lambda>k. k \<notin> set names) (map fst r))
      in case res of
           Inl es \<Rightarrow> Inl (es @ extras)
         | Inr p \<Rightarrow> if extras = [] then Inr p else Inl extras)"

definition v_int ::
  "coercion \<Rightarrow> string \<Rightarrow> int \<Rightarrow> int \<Rightarrow> json \<Rightarrow> verr list + int" where
  "v_int cz name ge le v =
     (case (case v of JInt i \<Rightarrow> Some i | _ \<Rightarrow> lax_int cz v) of
        None \<Rightarrow> Inl [IntType name]
      | Some i \<Rightarrow>
          if i < ge then Inl [GreaterThanEqual name]
          else if le < i then Inl [LessThanEqual name]
          else Inr i)"

definition v_bool :: "coercion \<Rightarrow> string \<Rightarrow> json \<Rightarrow> verr list + bool" where
  "v_bool cz name v =
     (case (case v of JBool b \<Rightarrow> Some b | _ \<Rightarrow> lax_bool cz v) of
        None \<Rightarrow> Inl [BoolType name]
      | Some b \<Rightarrow> Inr b)"

text \<open>The items of a list of texts, each trimmed.\<close>

fun v_items :: "string \<Rightarrow> json list \<Rightarrow> verr list + string list" where
  "v_items name [] = Inr []"
| "v_items name (x # xs) =
     ap (ap (Inr (#)) (v_str name None None None x)) (v_items name xs)"

definition v_str_list :: "string \<Rightarrow> nat \<Rightarrow> json \<Rightarrow> verr list + string list" where
  "v_str_list name max_length v =
     (case v of
        JList xs \<Rightarrow> if max_length < length xs then Inl [TooLong name] else v_items name xs
      | _ \<Rightarrow> Inl [ListType name])"

text \<open>\<open>response_format: ResponseFormat = Field(default=ResponseFormat.MARKDOWN)\<close>.\<close>

definition v_response_format :: "raw \<Rightarrow> verr list + ResponseFormat" where
  "v_response_format r =
     (case map_of r ''response_format'' of
        None \<Rightarrow> Inr MARKDOWN
      | Some v \<Rightarrow>
          if v = JStr ''markdown'' then Inr MARKDOWN
          else if v = JStr ''json'' then Inr JSON
          else Inl [EnumValue ''response_format''])"

definition validate_AddTaskInput :: "coercion \<Rightarrow> raw \<Rightarrow> verr list + AddTaskInput" where
  "validate_AddTaskInput cz r =
     forbid_extra [''title'', ''note'', ''day'', ''due_date'', ''parent_id'', ''label_ids'',
                   ''time_estimate'', ''is_starred''] r
       (ap (ap (ap (ap (ap (ap (ap (ap
          (Inr (\<lambda>t n d dd p l te st.
                  \<lparr>title = t, task_note = n, day = d, due_date = dd, parent_id = p,
                   label_ids = l, time_estimate = te, is_starred = st\<rparr>))
          (required r ''title'' (v_str ''title'' (Some 1) (Some 500) None)))
          (optional r ''note'' (v_str ''note'' None (Some 5000) None)))
          (optional r ''day'' (v_str ''day'' None None (Some date_regex))))
          (optional r ''due_date'' (v_str ''due_date'' None None (Some date_regex))))
          (optional r ''parent_id'' (v_str ''parent_id'' None None None)))
          (optional r ''label_ids'' (v_str_list ''label_ids'' 20)))
          (optional r ''time_estimate'' (v_int cz ''time_estimate'' 60000 86400000)))
          (optional r ''is_starred'' (v_bool cz ''is_starred'')))"

definition validate_GetTasksInput :: "raw \<Rightarrow> verr list + GetTasksInput" where
  "validate_GetTasksInput r =
     forbid_extra [''date'', ''response_format''] r
       (ap (ap (Inr (\<lambda>d f. \<lparr>date = d, response_format = f\<rparr>))
          (optional r ''date'' (v_str ''date'' None None (Some date_regex))))
          (v_response_format r))"

definition validate_MarkDoneInput :: "raw \<Rightarrow> verr list + MarkDoneInput" where
  "validate_MarkDoneInput r =
     forbid_extra [''item_id''] r
       (ap (Inr (\<lambda>i. \<lparr>md_item_id = i\<rparr>))
          (required r ''item_id'' (v_str ''item_id'' (Some 1) None None)))"

definition validate_GetChildrenInput :: "raw \<Rightarrow> verr list + GetChildrenInput" where
  "validate_GetChildrenInput r =
     forbid_extra [''parent_id'', ''response_format''] r
       (ap (ap (Inr (\<lambda>p f. \<lparr>gc_parent_id = p, gc_response_format = f\<rparr>))
          (required r ''parent_id'' (v_str ''parent_id'' (Some 1) None None)))
          (v_response_format r))"

record StartTrackingInput =
  st_item_id :: string

definition validate_StartTrackingInput :: "raw \<Rightarrow> verr list + StartTrackingInput" where
  "validate_StartTrackingInput r =
     forbid_extra [''item_id''] r
       (ap (Inr (\<lambda>i. \<lparr>st_item_id = i\<rparr>))
          (required r ''item_id'' (v_str ''item_id'' (Some 1) None None)))"

definition validate_SimpleFormatInput :: "raw \<Rightarrow> verr list + SimpleFormatInput" where
  "validate_SimpleFormatInput r =
     forbid_extra [''response_format''] r
       (ap (Inr (\<lambda>f. \<lparr>sf_response_format = f\<rparr>)) (v_response_format r))"

subsection \<open>Time tracking\<close>

text \<open>\<open>marvin_start_tracking\<close>: the text returned, and the requests sent.\<close>

definition marvin_start_tracking ::
  "env \<Rightarrow> (request \<Rightarrow> exn + 'r) \<Rightarrow> StartTrackingInput \<Rightarrow> string \<times> request list" where
  "marvin_start_tracking e remote params =
     (case make_api_request e remote ''/track'' ''POST''
             (Some (JObj [(''itemId'', JStr (st_item_id params)), (''action'', JStr ''START'')]))
             None False of
        (Inl ex, sent) \<Rightarrow> (handle_api_error ex, sent)
      | (Inr _, sent) \<Rightarrow>
          (glyph_timer @ '' Timer started for task!'' @ [newline, newline]
             @ ''**Task ID**: '' @ st_item_id params @ [newline, newline]
             @ ''_Note: Any previously running timer has been stopped._'', sent))"

text \<open>\<open>marvin_stop_tracking\<close>: the text returned, and the requests sent.\<close>

definition marvin_stop_tracking ::
  "env \<Rightarrow> (request \<Rightarrow> exn + 'r) \<Rightarrow> string \<times> request list" where
  "marvin_stop_tracking e remote =
     (case make_api_request e remote ''/track'' ''POST''
             (Some (JObj [(''action'', JStr ''STOP'')])) None False of
        (Inl ex, sent) \<Rightarrow> (handle_api_error ex, sent)
      | (Inr _, sent) \<Rightarrow>
          (glyph_timer @ '' Timer stopped successfully!'' @ [newline, newline]
             @ ''_Time tracking has been saved to the task._'', sent))"

subsection \<open>Dispatch\<close>

datatype tool =
    Add_task
  | Get_todays_tasks
  | Mark_done
  | Get_due_tasks
  | Get_categories
  | Get_labels
  | Get_children
  | Start_tracking
  | Stop_tracking

text \<open>A validated input, by the schema of the tool; \<open>marvin_stop_tracking\<close> has none.\<close>

datatype tool_input =
    In_add AddTaskInput
  | In_tasks GetTasksInput
  | In_mark_done MarkDoneInput
  | In_children GetChildrenInput
  | In_simple SimpleFormatInput
  | In_start StartTrackingInput
  | In_none

text \<open>The validation of the raw input of a tool against the schema of its parameter.\<close>

definition validate_input :: "coercion \<Rightarrow> tool \<Rightarrow> raw \<Rightarrow> verr list + tool_input" where
  "validate_input cz t r =
     (case t of
        Add_task \<Rightarrow> ap (Inr In_add) (validate_AddTaskInput cz r)
      | Get_todays_tasks \<Rightarrow> ap (Inr In_tasks) (validate_GetTasksInput r)
      | Mark_done \<Rightarrow> ap (Inr In_mark_done) (validate_MarkDoneInput r)
      | Get_due_tasks \<Rightarrow> ap (Inr In_tasks) (validate_GetTasksInput r)
      | Get_categories \<Rightarrow> ap (Inr In_simple) (validate_SimpleFormatInput r)
      | Get_labels \<Rightarrow> ap (Inr In_simple) (validate_SimpleFormatInput r)
      | Get_children \<Rightarrow> ap (Inr In_children) (validate_GetChildrenInput r)
      | Start_tracking \<Rightarrow> ap (Inr In_start) (validate_StartTrackingInput r)
      | Stop_tracking \<Rightarrow> Inr In_none)"

text \<open>The remote service: the endpoints that list records, and the others.\<close>

record remotes =
  list_endpoint :: "request \<Rightarrow> exn + task list"
  item_endpoint :: "request \<Rightarrow> exn + task"

text \<open>The body of a tool on its validated input: the text returned, the requests sent.\<close>

fun run_tool :: "env \<Rightarrow> remotes \<Rightarrow> tool \<Rightarrow> tool_input \<Rightarrow> string \<times> request list" where
  "run_tool e rem Add_task (In_add p) = marvin_add_task e (item_endpoint rem) p"
| "run_tool e rem Get_todays_tasks (In_tasks p) = marvin_get_todays_tasks e (list_endpoint rem) p"
| "run_tool e rem Mark_done (In_mark_done p) = marvin_mark_done e (item_endpoint rem) p"
| "run_tool e rem Get_due_tasks (In_tasks p) = marvin_get_due_tasks e (list_endpoint rem) p"
| "run_tool e rem Get_categories (In_simple p) = marvin_get_categories e (list_endpoint rem) p"
| "run_tool e rem Get_labels (In_simple p) = marvin_get_labels e (list_endpoint rem) p"
| "run_tool e rem Get_children (In_children p) = marvin_get_children e (list_endpoint rem) p"
| "run_tool e rem Start_tracking (In_start p) = marvin_start_tracking e (item_endpoint rem) p"
| "run_tool e rem Stop_tracking In_none = marvin_stop_tracking e (item_endpoint rem)"
| "run_tool e rem _ _ = ([], [])"

text \<open>
  Modelled from the spec: the protocol handler that invokes a tool (the framework behind
  the decorator \<open>@mcp.tool\<close>, which is not in the source files). The specification has
  the schemas "checked before any network call" and the data flow "raw input, Validation,
  API Client": the handler validates the raw input against the schema of the tool's
  parameter and calls the tool function with the validated input; a validation failure
  is returned as such and the tool function is not called.
\<close>

definition call_tool ::
  "coercion \<Rightarrow> env \<Rightarrow> remotes \<Rightarrow> tool \<Rightarrow> raw \<Rightarrow> (verr list + string) \<times> request list" where
  "call_tool cz e rem t r =
     (case validate_input cz t r of
        Inl errs \<Rightarrow> (Inl errs, [])
      | Inr p \<Rightarrow> (Inr (fst (run_tool e rem t p)), snd (run_tool e rem t p)))"

section \<open>No request for an invalid input\<close>

lemma isl_ap: "isl (ap f x) \<longleftrightarrow> isl f \<or> isl x"
  by (cases f; cases x) (simp_all add: ap_def)

lemma isl_forbid_extra:
  "isl (forbid_extra names r res) \<longleftrightarrow> isl res \<or> (\<exists>k \<in> fst ` set r. k \<notin> set names)"
  by (cases res) (auto simp: forbid_extra_def Let_def filter_empty_conv)

lemma isl_validate_AddTaskInput:
  "isl (validate_AddTaskInput cz r) \<longleftrightarrow>
     isl (required r ''title'' (v_str ''title'' (Some 1) (Some 500) None)) \<or>
     isl (optional r ''note'' (v_str ''note'' None (Some 5000) None)) \<or>
     isl (optional r ''day'' (v_str ''day'' None None (Some date_regex))) \<or>
     isl (optional r ''due_date'' (v_str ''due_date'' None None (Some date_regex))) \<or>
     isl (optional r ''parent_id'' (v_str ''parent_id'' None None None)) \<or>
     isl (optional r ''label_ids'' (v_str_list ''label_ids'' 20)) \<or>
     isl (optional r ''time_estimate'' (v_int cz ''time_estimate'' 60000 86400000)) \<or>
     isl (optional r ''is_starred'' (v_bool cz ''is_starred'')) \<or>
     (\<exists>k \<in> fst ` set r. k \<notin> set [''title'', ''note'', ''day'', ''due_date'', ''parent_id'',
                                   ''label_ids'', ''time_estimate'', ''is_starred''])"
  unfolding validate_AddTaskInput_def isl_forbid_extra isl_ap by simp

lemma valid_input_runs_tool:
  "validate_input cz t r = Inr p \<Longrightarrow>
   call_tool cz e rem t r = (Inr (fst (run_tool e rem t p)), snd (run_tool e rem t p))"
  by (simp add: call_tool_def)

text \<open>
  C3. An input that fails the validation of the tool's schema sends no request: the
  call returns the validation errors and the list of requests sent is empty, for every
  tool. Among the inputs of the add-task tool that fail: one with a key that is no
  field, one whose title is empty after trimming, one whose \<open>day\<close> is not of the date
  shape, one whose time estimate is outside 60000 to 86400000.
\<close>

theorem invalid_input_sends_nothing:
  "(validate_input cz t r = Inl errs \<longrightarrow> call_tool cz e rem t r = (Inl errs, [])) \<and>
   (k \<in> fst ` set r \<and>
    k \<notin> set [''title'', ''note'', ''day'', ''due_date'', ''parent_id'', ''label_ids'',
              ''time_estimate'', ''is_starred''] \<longrightarrow>
      isl (validate_input cz Add_task r) \<and> snd (call_tool cz e rem Add_task r) = []) \<and>
   (map_of r ''title'' = Some (JStr s) \<and> strip s = [] \<longrightarrow>
      isl (validate_input cz Add_task r) \<and> snd (call_tool cz e rem Add_task r) = []) \<and>
   (map_of r ''day'' = Some (JStr s) \<and> \<not> date_shape (strip s) \<longrightarrow>
      isl (validate_input cz Add_task r) \<and> snd (call_tool cz e rem Add_task r) = []) \<and>
   (map_of r ''time_estimate'' = Some (JInt i) \<and> (i < 60000 \<or> 86400000 < i) \<longrightarrow>
      isl (validate_input cz Add_task r) \<and> snd (call_tool cz e rem Add_task r) = [])"
proof -
  have none: "isl (validate_input cz Add_task r) \<Longrightarrow> snd (call_tool cz e rem Add_task r) = []"
    by (cases "validate_input cz Add_task r") (simp_all add: call_tool_def)
  have v: "isl (validate_input cz Add_task r) = isl (validate_AddTaskInput cz r)"
    by (simp add: validate_input_def isl_ap)
  have 1: "validate_input cz t r = Inl errs \<longrightarrow> call_tool cz e rem t r = (Inl errs, [])"
    by (simp add: call_tool_def)
  have 2: "isl (validate_input cz Add_task r)"
    if "k \<in> fst ` set r \<and>
        k \<notin> set [''title'', ''note'', ''day'', ''due_date'', ''parent_id'', ''label_ids'',
              ''time_estimate'', ''is_starred'']"
    unfolding v isl_validate_AddTaskInput using that by blast
  have "isl (required r ''title'' (v_str ''title'' (Some 1) (Some 500) None))"
    if "map_of r ''title'' = Some (JStr s) \<and> strip s = []"
    using that by (simp add: required_def v_str_def)
  then have 3: "isl (validate_input cz Add_task r)"
    if "map_of r ''title'' = Some (JStr s) \<and> strip s = []"
    unfolding v isl_validate_AddTaskInput using that by blast
  have "isl (optional r ''day'' (v_str ''day'' None None (Some date_regex)))"
    if "map_of r ''day'' = Some (JStr s) \<and> \<not> date_shape (strip s)"
    using that by (simp add: optional_def v_str_def matches_date_regex)
  then have 4: "isl (validate_input cz Add_task r)"
    if "map_of r ''day'' = Some (JStr s) \<and> \<not> date_shape (strip s)"
    unfolding v isl_validate_AddTaskInput using that by blast
  have "isl (optional r ''time_estimate'' (v_int cz ''time_estimate'' 60000 86400000))"
    if "map_of r ''time_estimate'' = Some (JInt i) \<and> (i < 60000 \<or> 86400000 < i)"
    using that by (auto simp: optional_def v_int_def)
  then have 5: "isl (validate_input cz Add_task r)"
    if "map_of r ''time_estimate'' = Some (JInt i) \<and> (i < 60000 \<or> 86400000 < i)"
    unfolding v isl_validate_AddTaskInput using that by blast
  from 1 2 3 4 5 none show ?thesis by blast
qed

text \<open>A coercion that converts nothing and a remote service, for the evaluation below.\<close>

definition strict_coercion :: coercion where
  "strict_coercion = \<lparr>lax_int = (\<lambda>v. None), lax_bool = (\<lambda>v. None)\<rparr>"

definition empty_remote :: remotes where
  "empty_remote = \<lparr>list_endpoint = (\<lambda>rq. Inr []), item_endpoint = (\<lambda>rq. Inl ConnectError)\<rparr>"

theorem invalid_input_sends_nothing_witness:
  "snd (call_tool strict_coercion utc_env empty_remote Add_task
          [(''title'', JStr ''Call dentist''), (''time_estimate'', JInt 59999)]) = [] \<and>
   snd (call_tool strict_coercion utc_env empty_remote Add_task
          [(''title'', JStr ''Call dentist''), (''day'', JStr ''2024/03/20'')]) = [] \<and>
   snd (call_tool strict_coercion utc_env empty_remote Add_task
          [(''title'', JStr ''  '')]) = [] \<and>
   snd (call_tool strict_coercion utc_env empty_remote Add_task
          [(''title'', JStr ''Call dentist''), (''priority'', JInt 1)]) = []"
proof -
  have a: "map_of [(''title'', JStr ''Call dentist''), (''time_estimate'', JInt 59999)]
             ''time_estimate'' = Some (JInt 59999) \<and> ((59999::int) < 60000 \<or> 86400000 < (59999::int))"
    by simp
  have s: "strip ''2024/03/20'' = ''2024/03/20''" by (simp add: strip_def is_space_def)
  have b: "map_of [(''title'', JStr ''Call dentist''), (''day'', JStr ''2024/03/20'')] ''day''
             = Some (JStr ''2024/03/20'') \<and> \<not> date_shape (strip ''2024/03/20'')"
    by (simp add: s date_shape_def)
  have c: "map_of [(''title'', JStr ''  '')] ''title'' = Some (JStr ''  '') \<and> strip ''  '' = []"
    by (simp add: strip_def is_space_def)
  have d: "''priority'' \<in> fst ` set [(''title'', JStr ''Call dentist''), (''priority'', JInt 1)] \<and>
    ''priority'' \<notin> set [''title'', ''note'', ''day'', ''due_date'', ''parent_id'', ''label_ids'',
              ''time_estimate'', ''is_starred'']"
    by simp
  from invalid_input_sends_nothing [of strict_coercion Add_task
      "[(''title'', JStr ''Call dentist''), (''time_estimate'', JInt 59999)]" "[]"
      utc_env empty_remote "''x''" "''x''" 59999] a
  have 1: "snd (call_tool strict_coercion utc_env empty_remote Add_task
          [(''title'', JStr ''Call dentist''), (''time_estimate'', JInt 59999)]) = []"
    by blast
  from invalid_input_sends_nothing [of strict_coercion Add_task
      "[(''title'', JStr ''Call dentist''), (''day'', JStr ''2024/03/20'')]" "[]"
      utc_env empty_remote "''x''" "''2024/03/20''" 0] b
  have 2: "snd (call_tool strict_coercion utc_env empty_remote Add_task
          [(''title'', JStr ''Call dentist''), (''day'', JStr ''2024/03/20'')]) = []"
    by blast
  from invalid_input_sends_nothing [of strict_coercion Add_task
      "[(''title'', JStr ''  '')]" "[]" utc_env empty_remote "''x''" "''  ''" 0] c
  have 3: "snd (call_tool strict_coercion utc_env empty_remote Add_task
          [(''title'', JStr ''  '')]) = []"
    by blast
  from invalid_input_sends_nothing [of strict_coercion Add_task
      "[(''title'', JStr ''Call dentist''), (''priority'', JInt 1)]" "[]"
      utc_env empty_remote "''priority''" "''x''" 0] d
  have 4: "snd (call_tool strict_coercion utc_env empty_remote Add_task
          [(''title'', JStr ''Call dentist''), (''priority'', JInt 1)]) = []"
    by blast
  from 1 2 3 4 show ?thesis by blast
qed

text \<open>A valid input of the same tool is passed on: one request is sent.\<close>

lemma valid_add_task_sends_one:
  "length (snd (call_tool strict_coercion utc_env empty_remote Add_task
          [(''title'', JStr ''Call dentist ~15 +2024-03-20'')])) = 1"
proof -
  have s: "strip ''Call dentist ~15 +2024-03-20'' = ''Call dentist ~15 +2024-03-20''"
    by (simp add: strip_def is_space_def)
  have "validate_input strict_coercion Add_task
          [(''title'', JStr ''Call dentist ~15 +2024-03-20'')]
        = Inr (In_add \<lparr>title = ''Call dentist ~15 +2024-03-20'', task_note = None, day = None,
             due_date = None, parent_id = None, label_ids = None, time_estimate = None,
             is_starred = None\<rparr>)"
    by (simp add: validate_input_def validate_AddTaskInput_def forbid_extra_def ap_def
        required_def optional_def v_str_def s)
  then show ?thesis
    by (simp add: call_tool_def add_task_sent)
qed

section \<open>The two renderings of a record set\<close>

text \<open>Reading a field back from a rendered JSON record.\<close>

fun json_field :: "string \<Rightarrow> json \<Rightarrow> json option" where
  "json_field k (JObj fs) = map_of fs k"
| "json_field k _ = None"

text \<open>
  A text field of the JSON record against the text the markdown block shows for it: the
  same text when the record has the field; \<open>null\<close> in JSON where markdown shows the
  placeholder of the missing field, or \<open>None\<close> for a field that is present and null.
\<close>

definition same_text :: "json \<Rightarrow> string \<Rightarrow> string \<Rightarrow> bool" where
  "same_text j placeholder shown =
     (case j of
        JStr s \<Rightarrow> shown = s
      | JNull \<Rightarrow> shown = placeholder \<or> shown = ''None''
      | _ \<Rightarrow> False)"

text \<open>
  A markdown block of a task listing against the JSON record at the same position: the
  heading is the glyph, the title and possibly a tag, the next line is the identifier;
  identifier and title are the texts of the JSON record, and the glyph is the done glyph
  exactly when the JSON record has \<open>done\<close> true.
\<close>

definition block_agrees :: "string list \<Rightarrow> json \<Rightarrow> bool" where
  "block_agrees block rec \<longleftrightarrow>
     (\<exists>glyph title_text tag id_text j_id j_title.
        hd block = ''## '' @ glyph @ '' '' @ title_text @ tag \<and>
        block ! 1 = ''- **ID**: '' @ id_text \<and>
        (glyph = glyph_done \<or> glyph = glyph_open) \<and>
        (tag = [] \<or> tag = '' [OVERDUE]'' \<or> tag = '' [DUE TODAY]'') \<and>
        (glyph = glyph_done) = (json_field ''done'' rec = Some (JBool True)) \<and>
        json_field ''id'' rec = Some j_id \<and> same_text j_id [] id_text \<and>
        json_field ''title'' rec = Some j_title \<and> same_text j_title ''Untitled'' title_text)"

lemma map_exn_length: "map_exn f xs = Inr ys \<Longrightarrow> length ys = length xs"
  by (induction xs arbitrary: ys) (auto split: sum.splits)

lemma map_exn_nth:
  "map_exn f xs = Inr ys \<Longrightarrow> i < length xs \<Longrightarrow> f (xs ! i) = Inr (ys ! i)"
proof (induction xs arbitrary: ys i)
  case Nil
  then show ?case by simp
next
  case (Cons x xs)
  from Cons.prems(1) obtain y ys' where
    y: "f x = Inr y" and ys': "map_exn f xs = Inr ys'" and ys: "ys = y # ys'"
    by (auto split: sum.splits)
  show ?case
  proof (cases i)
    case 0
    with y ys show ?thesis by simp
  next
    case (Suc k)
    with Cons.prems(2) have "k < length xs" by simp
    with ys' have "f (xs ! k) = Inr (ys' ! k)" by (rule Cons.IH)
    with Suc ys show ?thesis by simp
  qed
qed

lemma glyphs_differ: "glyph_done \<noteq> glyph_open"
  by (simp add: glyph_done_def glyph_open_def)

lemma same_text_field: "same_text (json_str_opt (getf f)) d (fmt_get f d)"
  by (cases f) (simp_all add: same_text_def json_str_opt_def)

lemma done_glyph_agrees:
  "(status_glyph t = glyph_done) = (json_done (f_done t) = JBool True)"
  by (cases "f_done t")
    (auto simp: status_glyph_def truthy_bool_def glyphs_differ glyphs_differ [symmetric])

lemma today_block_shape:
  "today_block e t = Inr b \<Longrightarrow>
   hd b = ''## '' @ status_glyph t @ '' '' @ fmt_get (f_title t) ''Untitled'' \<and>
   b ! 1 = ''- **ID**: '' @ fmt_get (f_id t) []"
  by (auto simp: today_block_def split: sum.splits)

lemma today_json_shape:
  "today_json e t = Inr j \<Longrightarrow>
   json_field ''id'' j = Some (json_str_opt (getf (f_id t))) \<and>
   json_field ''title'' j = Some (json_str_opt (getf (f_title t))) \<and>
   json_field ''done'' j = Some (json_done (f_done t))"
  by (auto simp: today_json_def split: sum.splits)

lemma overdue_tag_cases:
  "overdue_tag e dt v = Inr tag \<Longrightarrow> tag = [] \<or> tag = '' [OVERDUE]'' \<or> tag = '' [DUE TODAY]''"
  unfolding overdue_tag_def
  by (cases "truthy_int v"; cases "fromtimestamp e (the v)") (auto split: if_splits)

lemma due_block_shape:
  assumes "due_block e dt t = Inr b"
  shows "\<exists>tag. (tag = [] \<or> tag = '' [OVERDUE]'' \<or> tag = '' [DUE TODAY]'') \<and>
     hd b = ''## '' @ status_glyph t @ '' '' @ fmt_get (f_title t) ''Untitled'' @ tag \<and>
     b ! 1 = ''- **ID**: '' @ fmt_get (f_id t) []"
proof -
  from assms obtain s tag where
    tag: "overdue_tag e dt (getf (f_dueDate t)) = Inr tag" and
    b: "b = [''## '' @ status_glyph t @ '' '' @ fmt_get (f_title t) ''Untitled'' @ tag,
             ''- **ID**: '' @ fmt_get (f_id t) [],
             ''- **Due**: '' @ s]
            @ estimate_line (getf (f_timeEstimate t))
            @ note_line 200 (getf (f_note t)) @ [[]]"
    unfolding due_block_def
    by (cases "format_timestamp e (getf (f_dueDate t)) ''Not set''";
        cases "overdue_tag e dt (getf (f_dueDate t))") auto
  from b have "hd b = ''## '' @ status_glyph t @ '' '' @ fmt_get (f_title t) ''Untitled'' @ tag"
    and "b ! 1 = ''- **ID**: '' @ fmt_get (f_id t) []" by simp_all
  with overdue_tag_cases [OF tag] show ?thesis by blast
qed

lemma due_json_shape:
  "due_json e dt t = Inr j \<Longrightarrow>
   json_field ''id'' j = Some (json_str_opt (getf (f_id t))) \<and>
   json_field ''title'' j = Some (json_str_opt (getf (f_title t))) \<and>
   json_field ''done'' j = Some (json_done (f_done t))"
  by (auto simp: due_json_def split: sum.splits)

lemma glyph_cases: "status_glyph t = glyph_done \<or> status_glyph t = glyph_open"
  by (simp add: status_glyph_def)

lemma today_agrees:
  assumes "today_block e t = Inr b" and "today_json e t = Inr j"
  shows "block_agrees b j"
proof -
  from today_block_shape [OF assms(1)]
  have "hd b = ''## '' @ status_glyph t @ '' '' @ fmt_get (f_title t) ''Untitled'' @ []"
    and "b ! 1 = ''- **ID**: '' @ fmt_get (f_id t) []" by simp_all
  moreover from today_json_shape [OF assms(2)]
  have "json_field ''id'' j = Some (json_str_opt (getf (f_id t)))"
    and "json_field ''title'' j = Some (json_str_opt (getf (f_title t)))"
    and "json_field ''done'' j = Some (json_done (f_done t))" by simp_all
  moreover have "(status_glyph t = glyph_done) = (json_done (f_done t) = JBool True)"
    by (rule done_glyph_agrees)
  moreover note glyph_cases [of t] same_text_field [of "f_id t" "[]"]
    same_text_field [of "f_title t" "''Untitled''"]
  ultimately show ?thesis unfolding block_agrees_def
    by (intro exI [of _ "status_glyph t"] exI [of _ "fmt_get (f_title t) ''Untitled''"]
        exI [of _ "[]"] exI [of _ "fmt_get (f_id t) []"]
        exI [of _ "json_str_opt (getf (f_id t))"]
        exI [of _ "json_str_opt (getf (f_title t))"]) simp
qed

lemma due_agrees:
  assumes "due_block e dt t = Inr b" and "due_json e dt t = Inr j"
  shows "block_agrees b j"
proof -
  from due_block_shape [OF assms(1)] obtain tag where
    "tag = [] \<or> tag = '' [OVERDUE]'' \<or> tag = '' [DUE TODAY]''"
    "hd b = ''## '' @ status_glyph t @ '' '' @ fmt_get (f_title t) ''Untitled'' @ tag"
    "b ! 1 = ''- **ID**: '' @ fmt_get (f_id t) []" by blast
  moreover from due_json_shape [OF assms(2)]
  have "json_field ''id'' j = Some (json_str_opt (getf (f_id t)))"
    and "json_field ''title'' j = Some (json_str_opt (getf (f_title t)))"
    and "json_field ''done'' j = Some (json_done (f_done t))" by simp_all
  moreover have "(status_glyph t = glyph_done) = (json_done (f_done t) = JBool True)"
    by (rule done_glyph_agrees)
  moreover note glyph_cases [of t] same_text_field [of "f_id t" "[]"]
    same_text_field [of "f_title t" "''Untitled''"]
  ultimately show ?thesis unfolding block_agrees_def
    by (intro exI [of _ "status_glyph t"] exI [of _ "fmt_get (f_title t) ''Untitled''"]
        exI [of _ tag] exI [of _ "fmt_get (f_id t) []"]
        exI [of _ "json_str_opt (getf (f_id t))"]
        exI [of _ "json_str_opt (getf (f_title t))"]) simp
qed

text \<open>Two records without a due date, one of them without a title.\<close>

definition morning_standup :: task where
  "morning_standup =
     \<lparr>f_id = Val ''task_xyz789'', f_title = Val ''Morning standup'', f_done = Val True,
      f_dueDate = Absent, f_day = Absent, f_timeEstimate = Absent, f_parentId = Absent,
      f_note = Absent, f_type = Absent\<rparr>"

definition untitled_task :: task where
  "untitled_task =
     \<lparr>f_id = Val ''task_1'', f_title = Absent, f_done = Absent,
      f_dueDate = Absent, f_day = Absent, f_timeEstimate = Absent, f_parentId = Absent,
      f_note = Absent, f_type = Absent\<rparr>"

lemma today_block_standup:
  "today_block e morning_standup
     = Inr [''## '' @ glyph_done @ '' Morning standup'', ''- **ID**: task_xyz789'', []]"
  by (simp add: today_block_def due_line_def estimate_line_def note_line_def truthy_int_def
      truthy_str_def status_glyph_def truthy_bool_def morning_standup_def)

lemma today_json_standup:
  "today_json e morning_standup
     = Inr (JObj [(''id'', JStr ''task_xyz789''), (''title'', JStr ''Morning standup''),
                  (''done'', JBool True), (''dueDate'', JNull), (''timeEstimate'', JNull),
                  (''parentId'', JNull), (''note'', JNull)])"
  by (simp add: today_json_def json_date_def json_estimate_def json_str_opt_def truthy_int_def
      morning_standup_def)

lemma today_block_untitled:
  "today_block e untitled_task
     = Inr [''## '' @ glyph_open @ '' Untitled'', ''- **ID**: task_1'', []]"
  by (simp add: today_block_def due_line_def estimate_line_def note_line_def truthy_int_def
      truthy_str_def status_glyph_def truthy_bool_def untitled_task_def)

lemma today_json_untitled:
  "today_json e untitled_task
     = Inr (JObj [(''id'', JStr ''task_1''), (''title'', JNull),
                  (''done'', JBool False), (''dueDate'', JNull), (''timeEstimate'', JNull),
                  (''parentId'', JNull), (''note'', JNull)])"
  by (simp add: today_json_def json_date_def json_estimate_def json_str_opt_def truthy_int_def
      untitled_task_def)

text \<open>The same two records in the listing of due tasks.\<close>

definition standup_due_block :: "string list" where
  "standup_due_block =
     [''## '' @ glyph_done @ '' Morning standup'', ''- **ID**: task_xyz789'',
      ''- **Due**: Not set'', []]"

definition standup_due_record :: json where
  "standup_due_record =
     JObj [(''id'', JStr ''task_xyz789''), (''title'', JStr ''Morning standup''),
           (''done'', JBool True), (''dueDate'', JNull), (''timeEstimate'', JNull)]"

definition untitled_due_block :: "string list" where
  "untitled_due_block =
     [''## '' @ glyph_open @ '' Untitled'', ''- **ID**: task_1'', ''- **Due**: Not set'', []]"

definition untitled_due_record :: json where
  "untitled_due_record =
     JObj [(''id'', JStr ''task_1''), (''title'', JNull),
           (''done'', JBool False), (''dueDate'', JNull), (''timeEstimate'', JNull)]"

lemma due_block_standup: "due_block e dt morning_standup = Inr standup_due_block"
  by (simp add: due_block_def format_timestamp_def overdue_tag_def estimate_line_def
      note_line_def truthy_int_def truthy_str_def status_glyph_def truthy_bool_def
      morning_standup_def standup_due_block_def)

lemma due_json_standup: "due_json e dt morning_standup = Inr standup_due_record"
  by (simp add: due_json_def json_date_def days_overdue_entry_def json_estimate_def
      json_str_opt_def truthy_int_def morning_standup_def standup_due_record_def)

lemma due_block_untitled: "due_block e dt untitled_task = Inr untitled_due_block"
  by (simp add: due_block_def format_timestamp_def overdue_tag_def estimate_line_def
      note_line_def truthy_int_def truthy_str_def status_glyph_def truthy_bool_def
      untitled_task_def untitled_due_block_def)

lemma due_json_untitled: "due_json e dt untitled_task = Inr untitled_due_record"
  by (simp add: due_json_def json_date_def days_overdue_entry_def json_estimate_def
      json_str_opt_def truthy_int_def untitled_task_def untitled_due_record_def)

text \<open>
  C5, as the claim states it, fails: for a record without a title the JSON record has
  the title \<open>null\<close> and the markdown block has the title \<open>Untitled\<close>.
\<close>

theorem untitled_record_titles_differ:
  "today_json utc_env untitled_task
     = Inr (JObj [(''id'', JStr ''task_1''), (''title'', JNull),
                  (''done'', JBool False), (''dueDate'', JNull), (''timeEstimate'', JNull),
                  (''parentId'', JNull), (''note'', JNull)]) \<and>
   today_block utc_env untitled_task
     = Inr [''## '' @ glyph_open @ '' Untitled'', ''- **ID**: task_1'', []]"
  by (simp add: today_json_untitled today_block_untitled)

text \<open>
  C5, amended. When the records render, the markdown rendering has one block and the
  JSON rendering one record for each record of the set, in the order of the set: the
  JSON record at a position has the identifier, the title and the done flag of the
  record at that position, and the block at that position agrees with it
  (\<open>block_agrees\<close>): the same identifier and title where the record has them, the
  placeholder against \<open>null\<close> where it has not, and the done glyph exactly when the JSON
  flag is true. This holds for today's tasks and for the due tasks: the document that
  \<open>today_markdown\<close> (\<open>due_markdown\<close>) joins is the heading lines followed by these blocks
  in this order, and the object that \<open>today_response\<close> (\<open>due_response\<close>) builds has these
  records, in this order, as its list \<open>tasks\<close>.
\<close>

theorem renderings_same_order:
  "(map_exn (today_block e) tasks = Inr blocks \<and> map_exn (today_json e) tasks = Inr recs \<longrightarrow>
      today_markdown e d tasks
        = Inr (join_lines
                 ([''# Today's Tasks ('' @ d @ '')'', [],
                   ''Found '' @ str_nat (length tasks) @ '' task'' @ plural (length tasks), []]
                  @ concat blocks)) \<and>
      today_response e d tasks
        = Inr (JObj [(''date'', JStr d), (''total'', JInt (int (length tasks))),
                     (''tasks'', JList recs)]) \<and>
      length blocks = length tasks \<and> length recs = length tasks \<and>
      (\<forall>i<length tasks.
         json_field ''id'' (recs ! i) = Some (json_str_opt (getf (f_id (tasks ! i)))) \<and>
         json_field ''title'' (recs ! i) = Some (json_str_opt (getf (f_title (tasks ! i)))) \<and>
         json_field ''done'' (recs ! i) = Some (json_done (f_done (tasks ! i))) \<and>
         block_agrees (blocks ! i) (recs ! i))) \<and>
   (map_exn (due_block e dt) tasks = Inr dblocks \<and> map_exn (due_json e dt) tasks = Inr drecs \<longrightarrow>
      due_markdown e d dt tasks
        = Inr (join_lines
                 ([''# Due & Overdue Tasks (as of '' @ d @ '')'', [],
                   ''Found '' @ str_nat (length tasks) @ '' task'' @ plural (length tasks)
                     @ '' requiring attention'', []]
                  @ concat dblocks)) \<and>
      due_response e d dt tasks
        = Inr (JObj [(''asOf'', JStr d), (''total'', JInt (int (length tasks))),
                     (''tasks'', JList drecs)]) \<and>
      length dblocks = length tasks \<and> length drecs = length tasks \<and>
      (\<forall>i<length tasks.
         json_field ''id'' (drecs ! i) = Some (json_str_opt (getf (f_id (tasks ! i)))) \<and>
         json_field ''title'' (drecs ! i) = Some (json_str_opt (getf (f_title (tasks ! i)))) \<and>
         json_field ''done'' (drecs ! i) = Some (json_done (f_done (tasks ! i))) \<and>
         block_agrees (dblocks ! i) (drecs ! i)))"
proof (intro conjI impI)
  assume a: "map_exn (today_block e) tasks = Inr blocks \<and> map_exn (today_json e) tasks = Inr recs"
  then have a1: "map_exn (today_block e) tasks = Inr blocks"
    and a2: "map_exn (today_json e) tasks = Inr recs" by simp_all
  from a show "today_markdown e d tasks
        = Inr (join_lines
                 ([''# Today's Tasks ('' @ d @ '')'', [],
                   ''Found '' @ str_nat (length tasks) @ '' task'' @ plural (length tasks), []]
                  @ concat blocks))"
    by (simp add: today_markdown_def)
  from a show "today_response e d tasks
        = Inr (JObj [(''date'', JStr d), (''total'', JInt (int (length tasks))),
                     (''tasks'', JList recs)])"
    by (simp add: today_response_def)
  show "length blocks = length tasks" by (rule map_exn_length [OF a1])
  show "length recs = length tasks" by (rule map_exn_length [OF a2])
  show "\<forall>i<length tasks.
         json_field ''id'' (recs ! i) = Some (json_str_opt (getf (f_id (tasks ! i)))) \<and>
         json_field ''title'' (recs ! i) = Some (json_str_opt (getf (f_title (tasks ! i)))) \<and>
         json_field ''done'' (recs ! i) = Some (json_done (f_done (tasks ! i))) \<and>
         block_agrees (blocks ! i) (recs ! i)"
  proof (intro allI impI)
    fix i assume i: "i < length tasks"
    have b: "today_block e (tasks ! i) = Inr (blocks ! i)" by (rule map_exn_nth [OF a1 i])
    have j: "today_json e (tasks ! i) = Inr (recs ! i)" by (rule map_exn_nth [OF a2 i])
    from today_json_shape [OF j] today_agrees [OF b j]
    show "json_field ''id'' (recs ! i) = Some (json_str_opt (getf (f_id (tasks ! i)))) \<and>
         json_field ''title'' (recs ! i) = Some (json_str_opt (getf (f_title (tasks ! i)))) \<and>
         json_field ''done'' (recs ! i) = Some (json_done (f_done (tasks ! i))) \<and>
         block_agrees (blocks ! i) (recs ! i)" by simp
  qed
next
  assume a: "map_exn (due_block e dt) tasks = Inr dblocks \<and> map_exn (due_json e dt) tasks = Inr drecs"
  then have a1: "map_exn (due_block e dt) tasks = Inr dblocks"
    and a2: "map_exn (due_json e dt) tasks = Inr drecs" by simp_all
  from a show "due_markdown e d dt tasks
        = Inr (join_lines
                 ([''# Due & Overdue Tasks (as of '' @ d @ '')'', [],
                   ''Found '' @ str_nat (length tasks) @ '' task'' @ plural (length tasks)
                     @ '' requiring attention'', []]
                  @ concat dblocks))"
    by (simp add: due_markdown_def)
  from a show "due_response e d dt tasks
        = Inr (JObj [(''asOf'', JStr d), (''total'', JInt (int (length tasks))),
                     (''tasks'', JList drecs)])"
    by (simp add: due_response_def)
  show "length dblocks = length tasks" by (rule map_exn_length [OF a1])
  show "length drecs = length tasks" by (rule map_exn_length [OF a2])
  show "\<forall>i<length tasks.
         json_field ''id'' (drecs ! i) = Some (json_str_opt (getf (f_id (tasks ! i)))) \<and>
         json_field ''title'' (drecs ! i) = Some (json_str_opt (getf (f_title (tasks ! i)))) \<and>
         json_field ''done'' (drecs ! i) = Some (json_done (f_done (tasks ! i))) \<and>
         block_agrees (dblocks ! i) (drecs ! i)"
  proof (intro allI impI)
    fix i assume i: "i < length tasks"
    have b: "due_block e dt (tasks ! i) = Inr (dblocks ! i)" by (rule map_exn_nth [OF a1 i])
    have j: "due_json e dt (tasks ! i) = Inr (drecs ! i)" by (rule map_exn_nth [OF a2 i])
    from due_json_shape [OF j] due_agrees [OF b j]
    show "json_field ''id'' (drecs ! i) = Some (json_str_opt (getf (f_id (tasks ! i)))) \<and>
         json_field ''title'' (drecs ! i) = Some (json_str_opt (getf (f_title (tasks ! i)))) \<and>
         json_field ''done'' (drecs ! i) = Some (json_done (f_done (tasks ! i))) \<and>
         block_agrees (dblocks ! i) (drecs ! i)" by simp
  qed
qed

theorem renderings_same_order_witness:
  "block_agrees [''## '' @ glyph_done @ '' Morning standup'', ''- **ID**: task_xyz789'', []]
     (JObj [(''id'', JStr ''task_xyz789''), (''title'', JStr ''Morning standup''),
            (''done'', JBool True), (''dueDate'', JNull), (''timeEstimate'', JNull),
            (''parentId'', JNull), (''note'', JNull)]) \<and>
   block_agrees [''## '' @ glyph_open @ '' Untitled'', ''- **ID**: task_1'', []]
     (JObj [(''id'', JStr ''task_1''), (''title'', JNull),
            (''done'', JBool False), (''dueDate'', JNull), (''timeEstimate'', JNull),
            (''parentId'', JNull), (''note'', JNull)]) \<and>
   due_response utc_env ''2024-03-20'' 0 [morning_standup, untitled_task]
     = Inr (JObj [(''asOf'', JStr ''2024-03-20''), (''total'', JInt 2),
                  (''tasks'', JList [standup_due_record, untitled_due_record])]) \<and>
   due_markdown utc_env ''2024-03-20'' 0 [morning_standup, untitled_task]
     = Inr (join_lines
              ([''# Due & Overdue Tasks (as of 2024-03-20)'', [],
                ''Found '' @ str_nat 2 @ '' task'' @ plural 2 @ '' requiring attention'', []]
               @ concat [standup_due_block, untitled_due_block])) \<and>
   block_agrees standup_due_block standup_due_record \<and>
   block_agrees untitled_due_block untitled_due_record"
proof -
  have hd: "map_exn (due_block utc_env 0) [morning_standup, untitled_task]
              = Inr [standup_due_block, untitled_due_block] \<and>
            map_exn (due_json utc_env 0) [morning_standup, untitled_task]
              = Inr [standup_due_record, untitled_due_record]"
    by (simp add: due_block_standup due_block_untitled due_json_standup due_json_untitled)
  from renderings_same_order [where e = utc_env and dt = 0 and d = "''2024-03-20''"
      and tasks = "[morning_standup, untitled_task]"
      and dblocks = "[standup_due_block, untitled_due_block]"
      and drecs = "[standup_due_record, untitled_due_record]"] hd
  have dm: "due_markdown utc_env ''2024-03-20'' 0 [morning_standup, untitled_task]
     = Inr (join_lines
              ([''# Due & Overdue Tasks (as of '' @ ''2024-03-20'' @ '')'', [],
                ''Found '' @ str_nat (length [morning_standup, untitled_task]) @ '' task''
                  @ plural (length [morning_standup, untitled_task])
                  @ '' requiring attention'', []]
               @ concat [standup_due_block, untitled_due_block]))"
    and dr: "due_response utc_env ''2024-03-20'' 0 [morning_standup, untitled_task]
     = Inr (JObj [(''asOf'', JStr ''2024-03-20''),
                  (''total'', JInt (int (length [morning_standup, untitled_task]))),
                  (''tasks'', JList [standup_due_record, untitled_due_record])])"
    and dall: "\<forall>i<length [morning_standup, untitled_task].
       block_agrees ([standup_due_block, untitled_due_block] ! i)
         ([standup_due_record, untitled_due_record] ! i)"
    by blast+
  have d0: "block_agrees standup_due_block standup_due_record"
    using dall [rule_format, of 0] by simp
  have d1: "block_agrees untitled_due_block untitled_due_record"
    using dall [rule_format, of 1] by simp
  have len: "length [morning_standup, untitled_task] = 2" by simp
  have app: "''# Due & Overdue Tasks (as of '' @ ''2024-03-20'' @ '')''
      = ''# Due & Overdue Tasks (as of 2024-03-20)''" by simp
  from dm have dm': "due_markdown utc_env ''2024-03-20'' 0 [morning_standup, untitled_task]
     = Inr (join_lines
              ([''# Due & Overdue Tasks (as of 2024-03-20)'', [],
                ''Found '' @ str_nat 2 @ '' task'' @ plural 2 @ '' requiring attention'', []]
               @ concat [standup_due_block, untitled_due_block]))"
    by (simp only: len app)
  from dr have dr': "due_response utc_env ''2024-03-20'' 0 [morning_standup, untitled_task]
     = Inr (JObj [(''asOf'', JStr ''2024-03-20''), (''total'', JInt 2),
                  (''tasks'', JList [standup_due_record, untitled_due_record])])"
    by (simp only: len of_nat_numeral)
  have today: "block_agrees [''## '' @ glyph_done @ '' Morning standup'', ''- **ID**: task_xyz789'', []]
     (JObj [(''id'', JStr ''task_xyz789''), (''title'', JStr ''Morning standup''),
            (''done'', JBool True), (''dueDate'', JNull), (''timeEstimate'', JNull),
            (''parentId'', JNull), (''note'', JNull)]) \<and>
   block_agrees [''## '' @ glyph_open @ '' Untitled'', ''- **ID**: task_1'', []]
     (JObj [(''id'', JStr ''task_1''), (''title'', JNull),
            (''done'', JBool False), (''dueDate'', JNull), (''timeEstimate'', JNull),
            (''parentId'', JNull), (''note'', JNull)])"
  proof -
  define blocks where "blocks =
    [[''## '' @ glyph_done @ '' Morning standup'', ''- **ID**: task_xyz789'', []],
     [''## '' @ glyph_open @ '' Untitled'', ''- **ID**: task_1'', []]]"
  define recs where "recs =
    [JObj [(''id'', JStr ''task_xyz789''), (''title'', JStr ''Morning standup''),
            (''done'', JBool True), (''dueDate'', JNull), (''timeEstimate'', JNull),
            (''parentId'', JNull), (''note'', JNull)],
     JObj [(''id'', JStr ''task_1''), (''title'', JNull),
            (''done'', JBool False), (''dueDate'', JNull), (''timeEstimate'', JNull),
            (''parentId'', JNull), (''note'', JNull)]]"
  have h: "map_exn (today_block utc_env) [morning_standup, untitled_task] = Inr blocks \<and>
           map_exn (today_json utc_env) [morning_standup, untitled_task] = Inr recs"
    by (simp add: today_block_standup today_block_untitled today_json_standup
        today_json_untitled blocks_def recs_def)
  from renderings_same_order [of utc_env "[morning_standup, untitled_task]" blocks recs] h
  have all: "\<forall>i<length [morning_standup, untitled_task]. block_agrees (blocks ! i) (recs ! i)"
    by blast
    from all have "block_agrees (blocks ! 0) (recs ! 0)" by simp
    moreover from all have "block_agrees (blocks ! 1) (recs ! 1)" by simp
    ultimately show ?thesis by (simp add: blocks_def recs_def)
  qed
  from today dr' dm' d0 d1 show ?thesis by blast
qed

section \<open>The derived values of the two renderings\<close>

text \<open>
  The difference of shape, as the specification words it: a JSON field carries \<open>null\<close>
  where the markdown block omits the line. \<open>value_line\<close> is the line of a derived value
  (the formatted due date, the formatted time estimate); \<open>text_line\<close> is the line of a
  text of the record, left out also when the text is empty, and cut at \<open>limit\<close>
  characters when there is a limit.
\<close>

definition value_line :: "string \<Rightarrow> json option \<Rightarrow> string list" where
  "value_line label j = (case j of Some (JStr s) \<Rightarrow> [label @ s] | _ \<Rightarrow> [])"

definition text_line :: "string \<Rightarrow> nat option \<Rightarrow> json option \<Rightarrow> string list" where
  "text_line label limit j =
     (case j of
        Some (JStr s) \<Rightarrow>
          if s = [] then []
          else [label @ (case limit of None \<Rightarrow> s | Some n \<Rightarrow> take n s)]
      | _ \<Rightarrow> [])"

text \<open>The text after \<open>- **Due**: \<close> in the listing of due tasks, which always has the line.\<close>

definition due_text :: "json option \<Rightarrow> string" where
  "due_text j = (case j of Some (JStr s) \<Rightarrow> s | _ \<Rightarrow> ''Not set'')"

lemma due_line_json_date:
  "due_line e v = Inr l \<Longrightarrow> json_date e v = Inr j \<Longrightarrow> l = value_line ''- **Due**: '' (Some j)"
  unfolding due_line_def json_date_def value_line_def
  by (cases "truthy_int v"; cases "format_timestamp e v ''Not set''") auto

lemma format_timestamp_json_date:
  "format_timestamp e v ''Not set'' = Inr s \<Longrightarrow> json_date e v = Inr j \<Longrightarrow>
   s = due_text (Some j)"
  unfolding json_date_def due_text_def
  by (cases "truthy_int v") (auto simp: format_timestamp_def)

lemma estimate_line_json:
  "estimate_line v = value_line ''- **Estimate**: '' (Some (json_estimate v))"
  by (simp add: estimate_line_def json_estimate_def value_line_def)

lemma project_line_json:
  "(if truthy_str (getf f) then [''- **Project**: '' @ the (getf f)] else [])
     = text_line ''- **Project**: '' None (Some (json_str_opt (getf f)))"
  by (cases f) (simp_all add: truthy_str_def text_line_def json_str_opt_def)

lemma note_line_json:
  "note_line n (getf f) = text_line ''- **Note**: '' (Some n) (Some (json_str_opt (getf f)))"
  by (cases f) (simp_all add: note_line_def truthy_str_def text_line_def json_str_opt_def)

lemma today_block_from_json:
  assumes "today_block e t = Inr b" and "today_json e t = Inr j"
  shows "b = [hd b, b ! 1]
           @ value_line ''- **Due**: '' (json_field ''dueDate'' j)
           @ value_line ''- **Estimate**: '' (json_field ''timeEstimate'' j)
           @ text_line ''- **Project**: '' None (json_field ''parentId'' j)
           @ text_line ''- **Note**: '' (Some 200) (json_field ''note'' j)
           @ [[]]"
proof -
  from assms(1) obtain l where
    l: "due_line e (getf (f_dueDate t)) = Inr l" and
    b: "b = [''## '' @ status_glyph t @ '' '' @ fmt_get (f_title t) ''Untitled'',
             ''- **ID**: '' @ fmt_get (f_id t) []]
            @ l @ estimate_line (getf (f_timeEstimate t))
            @ (if truthy_str (getf (f_parentId t))
               then [''- **Project**: '' @ the (getf (f_parentId t))] else [])
            @ note_line 200 (getf (f_note t)) @ [[]]"
    unfolding today_block_def by (cases "due_line e (getf (f_dueDate t))") auto
  from assms(2) obtain d where
    d: "json_date e (getf (f_dueDate t)) = Inr d" and
    j: "j = JObj [(''id'', json_str_opt (getf (f_id t))),
                  (''title'', json_str_opt (getf (f_title t))),
                  (''done'', json_done (f_done t)),
                  (''dueDate'', d),
                  (''timeEstimate'', json_estimate (getf (f_timeEstimate t))),
                  (''parentId'', json_str_opt (getf (f_parentId t))),
                  (''note'', json_str_opt (getf (f_note t)))]"
    unfolding today_json_def by (cases "json_date e (getf (f_dueDate t))") auto
  have f1: "json_field ''dueDate'' j = Some d"
    and f2: "json_field ''timeEstimate'' j = Some (json_estimate (getf (f_timeEstimate t)))"
    and f3: "json_field ''parentId'' j = Some (json_str_opt (getf (f_parentId t)))"
    and f4: "json_field ''note'' j = Some (json_str_opt (getf (f_note t)))"
    by (simp_all add: j)
  have hb: "[hd b, b ! 1] = [''## '' @ status_glyph t @ '' '' @ fmt_get (f_title t) ''Untitled'',
             ''- **ID**: '' @ fmt_get (f_id t) []]"
    by (simp add: b)
  show ?thesis
    unfolding f1 f2 f3 f4 hb
    by (simp add: b due_line_json_date [OF l d] estimate_line_json project_line_json
        note_line_json)
qed

lemma due_block_from_json:
  assumes "due_block e dt t = Inr b" and "due_json e dt t = Inr j"
  shows "b = [hd b, b ! 1, ''- **Due**: '' @ due_text (json_field ''dueDate'' j)]
           @ value_line ''- **Estimate**: '' (json_field ''timeEstimate'' j)
           @ note_line 200 (getf (f_note t))
           @ [[]]"
proof -
  from assms(1) obtain s tag where
    s: "format_timestamp e (getf (f_dueDate t)) ''Not set'' = Inr s" and
    b: "b = [''## '' @ status_glyph t @ '' '' @ fmt_get (f_title t) ''Untitled'' @ tag,
             ''- **ID**: '' @ fmt_get (f_id t) [],
             ''- **Due**: '' @ s]
            @ estimate_line (getf (f_timeEstimate t))
            @ note_line 200 (getf (f_note t)) @ [[]]"
    unfolding due_block_def
    by (cases "format_timestamp e (getf (f_dueDate t)) ''Not set''";
        cases "overdue_tag e dt (getf (f_dueDate t))") auto
  from assms(2) obtain d overdue where
    d: "json_date e (getf (f_dueDate t)) = Inr d" and
    j: "j = JObj ([(''id'', json_str_opt (getf (f_id t))),
                   (''title'', json_str_opt (getf (f_title t))),
                   (''done'', json_done (f_done t)),
                   (''dueDate'', d),
                   (''timeEstimate'', json_estimate (getf (f_timeEstimate t)))] @ overdue)"
    unfolding due_json_def
    by (cases "json_date e (getf (f_dueDate t))";
        cases "days_overdue_entry e dt (getf (f_dueDate t))") auto
  have f1: "json_field ''dueDate'' j = Some d"
    and f2: "json_field ''timeEstimate'' j = Some (json_estimate (getf (f_timeEstimate t)))"
    by (simp_all add: j)
  have hb: "[hd b, b ! 1] = [''## '' @ status_glyph t @ '' '' @ fmt_get (f_title t) ''Untitled'' @ tag,
             ''- **ID**: '' @ fmt_get (f_id t) []]"
    by (simp add: b)
  from hb have hb': "hd b = ''## '' @ status_glyph t @ '' '' @ fmt_get (f_title t) ''Untitled'' @ tag"
    "b ! 1 = ''- **ID**: '' @ fmt_get (f_id t) []" by simp_all
  show ?thesis
    unfolding f1 f2 hb'
    by (simp add: b format_timestamp_json_date [OF s d] estimate_line_json)
qed

text \<open>Two records that differ in the note only.\<close>

definition standup_note :: "string \<Rightarrow> task" where
  "standup_note n = morning_standup\<lparr>f_note := Val n\<rparr>"

text \<open>
  C4, as the claim states it, fails: in the listing of due tasks the markdown block
  shows the note of a record and the JSON record has no field for it, so two records
  that differ in the note have one JSON rendering and two markdown renderings.
\<close>

theorem due_json_has_no_note:
  "due_json utc_env 0 (standup_note ''call Ann'') = due_json utc_env 0 (standup_note ''call Bob'') \<and>
   due_block utc_env 0 (standup_note ''call Ann'') \<noteq> due_block utc_env 0 (standup_note ''call Bob'')"
proof
  show "due_json utc_env 0 (standup_note ''call Ann'') = due_json utc_env 0 (standup_note ''call Bob'')"
    by (simp add: due_json_def json_date_def days_overdue_entry_def truthy_int_def
        standup_note_def morning_standup_def)
  show "due_block utc_env 0 (standup_note ''call Ann'') \<noteq> due_block utc_env 0 (standup_note ''call Bob'')"
    by (simp add: due_block_def format_timestamp_def overdue_tag_def truthy_int_def
        note_line_def truthy_str_def standup_note_def morning_standup_def)
qed

text \<open>
  C4, amended. The two renderings of a record show the same derived values, in
  different shapes: in the listing of today's tasks the lines of the due date and of the
  time estimate carry exactly the texts of the JSON fields \<open>dueDate\<close> and \<open>timeEstimate\<close>
  and are left out exactly when the field is \<open>null\<close>, the project line is the JSON
  \<open>parentId\<close>, and the note line is the first 200 characters of the JSON \<open>note\<close> (both
  left out when the field is \<open>null\<close> or empty); in the listing of due tasks the line of
  the due date carries the JSON \<open>dueDate\<close>, or \<open>Not set\<close> when it is \<open>null\<close>, and the line
  of the time estimate the JSON \<open>timeEstimate\<close>, while the note line is taken from the
  record, the JSON record having no note.
\<close>

theorem renderings_same_derived_values:
  "(today_block e t = Inr b \<and> today_json e t = Inr j \<longrightarrow>
      b = [hd b, b ! 1]
          @ value_line ''- **Due**: '' (json_field ''dueDate'' j)
          @ value_line ''- **Estimate**: '' (json_field ''timeEstimate'' j)
          @ text_line ''- **Project**: '' None (json_field ''parentId'' j)
          @ text_line ''- **Note**: '' (Some 200) (json_field ''note'' j)
          @ [[]]) \<and>
   (due_block e dt t = Inr db \<and> due_json e dt t = Inr dj \<longrightarrow>
      db = [hd db, db ! 1, ''- **Due**: '' @ due_text (json_field ''dueDate'' dj)]
           @ value_line ''- **Estimate**: '' (json_field ''timeEstimate'' dj)
           @ note_line 200 (getf (f_note t))
           @ [[]] \<and>
      json_field ''note'' dj = None)"
proof (intro conjI impI)
  assume "today_block e t = Inr b \<and> today_json e t = Inr j"
  then have "today_block e t = Inr b" and "today_json e t = Inr j" by simp_all
  then show "b = [hd b, b ! 1]
          @ value_line ''- **Due**: '' (json_field ''dueDate'' j)
          @ value_line ''- **Estimate**: '' (json_field ''timeEstimate'' j)
          @ text_line ''- **Project**: '' None (json_field ''parentId'' j)
          @ text_line ''- **Note**: '' (Some 200) (json_field ''note'' j)
          @ [[]]"
    by (rule today_block_from_json)
next
  assume "due_block e dt t = Inr db \<and> due_json e dt t = Inr dj"
  then have 1: "due_block e dt t = Inr db" and 2: "due_json e dt t = Inr dj" by simp_all
  then show "db = [hd db, db ! 1, ''- **Due**: '' @ due_text (json_field ''dueDate'' dj)]
           @ value_line ''- **Estimate**: '' (json_field ''timeEstimate'' dj)
           @ note_line 200 (getf (f_note t))
           @ [[]]"
    by (rule due_block_from_json)
  from 2 show "json_field ''note'' dj = None"
    unfolding due_json_def days_overdue_entry_def
    by (cases "json_date e (getf (f_dueDate t))"; cases "truthy_int (getf (f_dueDate t))";
        cases "fromtimestamp e (the (getf (f_dueDate t)))") auto
qed

text \<open>A record with a time estimate, a project and a note, and its two renderings.\<close>

definition budget_review :: task where
  "budget_review =
     \<lparr>f_id = Val ''task_abc123'', f_title = Val ''Review budget'', f_done = Val False,
      f_dueDate = Absent, f_day = Absent, f_timeEstimate = Val 7200000,
      f_parentId = Val ''cat_work'', f_note = Val ''Bring the Q4 numbers'', f_type = Absent\<rparr>"

definition budget_block :: "string list" where
  "budget_block =
     [''## '' @ glyph_open @ '' Review budget'', ''- **ID**: task_abc123'',
      ''- **Estimate**: 2h'', ''- **Project**: cat_work'',
      ''- **Note**: Bring the Q4 numbers'', []]"

definition budget_json :: json where
  "budget_json =
     JObj [(''id'', JStr ''task_abc123''), (''title'', JStr ''Review budget''),
           (''done'', JBool False), (''dueDate'', JNull), (''timeEstimate'', JStr ''2h''),
           (''parentId'', JStr ''cat_work''), (''note'', JStr ''Bring the Q4 numbers'')]"

definition standup_due_json :: json where
  "standup_due_json =
     JObj [(''id'', JStr ''task_xyz789''), (''title'', JStr ''Morning standup''),
           (''done'', JBool True), (''dueDate'', JNull), (''timeEstimate'', JNull)]"

lemma two_hours: "format_time_estimate (Some 7200000) = ''2h''"
  by (simp add: format_time_estimate_def truthy_int_def Let_def str_int_def str_nat_digit
      digit_char_def)

lemma today_block_budget: "today_block e budget_review = Inr budget_block"
  by (simp add: today_block_def due_line_def estimate_line_def note_line_def truthy_int_def
      truthy_str_def status_glyph_def truthy_bool_def budget_review_def budget_block_def
      two_hours)

lemma today_json_budget: "today_json e budget_review = Inr budget_json"
  by (simp add: today_json_def json_date_def json_estimate_def json_str_opt_def truthy_int_def
      budget_review_def budget_json_def two_hours)

lemma due_block_standup_note:
  "due_block e dt (standup_note ''call Ann'')
     = Inr [''## '' @ glyph_done @ '' Morning standup'', ''- **ID**: task_xyz789'',
            ''- **Due**: Not set'', ''- **Note**: call Ann'', []]"
  by (simp add: due_block_def format_timestamp_def overdue_tag_def estimate_line_def
      note_line_def truthy_int_def truthy_str_def status_glyph_def truthy_bool_def
      standup_note_def morning_standup_def)

lemma due_json_standup_note:
  "due_json e dt (standup_note ''call Ann'') = Inr standup_due_json"
  by (simp add: due_json_def json_date_def days_overdue_entry_def json_estimate_def
      json_str_opt_def truthy_int_def standup_note_def morning_standup_def
      standup_due_json_def)

theorem renderings_same_derived_values_witness:
  "budget_block = [hd budget_block, budget_block ! 1]
      @ value_line ''- **Due**: '' (json_field ''dueDate'' budget_json)
      @ value_line ''- **Estimate**: '' (json_field ''timeEstimate'' budget_json)
      @ text_line ''- **Project**: '' None (json_field ''parentId'' budget_json)
      @ text_line ''- **Note**: '' (Some 200) (json_field ''note'' budget_json)
      @ [[]] \<and>
   json_field ''note'' standup_due_json = None"
proof -
  have h1: "today_block utc_env budget_review = Inr budget_block \<and>
            today_json utc_env budget_review = Inr budget_json"
    by (simp add: today_block_budget today_json_budget)
  have h2: "due_block utc_env 0 (standup_note ''call Ann'')
              = Inr [''## '' @ glyph_done @ '' Morning standup'', ''- **ID**: task_xyz789'',
                     ''- **Due**: Not set'', ''- **Note**: call Ann'', []] \<and>
            due_json utc_env 0 (standup_note ''call Ann'') = Inr standup_due_json"
    by (simp add: due_block_standup_note due_json_standup_note)
  from renderings_same_derived_values [where e = utc_env and t = budget_review
      and b = budget_block and j = budget_json] h1
  have a: "budget_block = [hd budget_block, budget_block ! 1]
      @ value_line ''- **Due**: '' (json_field ''dueDate'' budget_json)
      @ value_line ''- **Estimate**: '' (json_field ''timeEstimate'' budget_json)
      @ text_line ''- **Project**: '' None (json_field ''parentId'' budget_json)
      @ text_line ''- **Note**: '' (Some 200) (json_field ''note'' budget_json)
      @ [[]]"
    by blast
  from renderings_same_derived_values [where e = utc_env and dt = 0
      and t = "standup_note ''call Ann''"
      and db = "[''## '' @ glyph_done @ '' Morning standup'', ''- **ID**: task_xyz789'',
        ''- **Due**: Not set'', ''- **Note**: call Ann'', []]" and dj = standup_due_json] h2
  have b: "json_field ''note'' standup_due_json = None"
    by blast
  from a b show ?thesis by blast
qed

end
